theory Spec2Isabelle
  imports Complex_Main
begin

section \<open>NumPy arrays as the notebooks use them\<close>

text \<open>
  The quickstart and the advanced notebook manipulate NumPy arrays directly in a few
  places only: \<open>np.ones_like\<close>, the index assignment \<open>mask[x, y] = 0\<close>, the masked
  array with \<open>filled(0)\<close> and \<open>np.transpose\<close>. A two-dimensional array is the list of
  its rows, a three-dimensional array the list of its planes. Pixel values are never
  computed with in these places, only copied or replaced, so the pixel type stays a
  parameter.
\<close>

datatype py_error = IndexError

type_synonym 'a array2 = "'a list list"
type_synonym 'a array3 = "'a list list list"

text \<open>Python indexing along an axis of length \<open>n\<close>: a negative index counts from the
  end, an index outside \<open>-n .. n-1\<close> raises \<open>IndexError\<close>.\<close>

definition py_index :: "nat \<Rightarrow> int \<Rightarrow> py_error + nat" where
  "py_index n i =
     (if 0 \<le> i \<and> i < int n then Inr (nat i)
      else if - int n \<le> i \<and> i < 0 then Inr (nat (int n + i))
      else Inl IndexError)"

definition ones_like :: "'a array2 \<Rightarrow> ('a::zero_neq_one) array2" where
  "ones_like a = map (map (\<lambda>_. 1)) a"

text \<open>\<open>a[i, j] = v\<close> for one pair of indices: the row index is checked against the number
  of rows, the column index against the length of the row.\<close>

definition setitem2 :: "'a array2 \<Rightarrow> int \<Rightarrow> int \<Rightarrow> 'a \<Rightarrow> py_error + 'a array2" where
  "setitem2 a i j v =
     (case py_index (length a) i of
        Inl e \<Rightarrow> Inl e
      | Inr r \<Rightarrow>
          (case py_index (length (a ! r)) j of
             Inl e \<Rightarrow> Inl e
           | Inr c \<Rightarrow> Inr (a[r := (a ! r)[c := v]])))"

text \<open>\<open>a[x, y] = v\<close> with two index lists of the same length (the notebooks build both
  from one list of coordinates): the positions \<open>(x[k], y[k])\<close> are assigned in turn, and
  one index out of range raises \<open>IndexError\<close> for the whole statement.\<close>

fun setitem2_fancy :: "'a array2 \<Rightarrow> (int \<times> int) list \<Rightarrow> 'a \<Rightarrow> py_error + 'a array2" where
  "setitem2_fancy a [] v = Inr a"
| "setitem2_fancy a ((i, j) # ps) v =
     (case setitem2 a i j v of
        Inl e \<Rightarrow> Inl e
      | Inr a' \<Rightarrow> setitem2_fancy a' ps v)"

text \<open>A masked array: the data and, for every element, whether it is masked.
  \<open>np.ma.array(data, mask=m)\<close> converts the mask to booleans: an element is masked where
  \<open>m\<close> is not zero.\<close>

record 'a masked_array =
  ma_data :: "'a array2"
  ma_mask :: "bool list list"

definition ma_array :: "'a array2 \<Rightarrow> ('b::zero) array2 \<Rightarrow> 'a masked_array" where
  "ma_array d m = \<lparr>ma_data = d, ma_mask = map (map (\<lambda>b. b \<noteq> 0)) m\<rparr>"

definition filled :: "'a masked_array \<Rightarrow> 'a \<Rightarrow> 'a array2" where
  "filled m v =
     map (\<lambda>(drow, mrow). map (\<lambda>(d, b). if b then v else d) (zip drow mrow))
       (zip (ma_data m) (ma_mask m))"

section \<open>The segmentation cell\<close>

text \<open>
  The end of the segmentation cell, the same in both notebooks:
  \<^verbatim>\<open>
  x = [elem[0] for elem in list_end]
  y = [elem[1] for elem in list_end]
  mask = np.ones_like(mean_image)
  mask[x, y] = 0
  segmented_image = np.ma.array(mean_image, mask=mask)
  segmented_image = segmented_image.filled(0)
  \<close>
\<close>

definition segmented_image_of ::
  "('a::zero_neq_one) array2 \<Rightarrow> (int \<times> int) list \<Rightarrow> py_error + 'a array2" where
  "segmented_image_of mean_image list_end =
     (let x = map fst list_end;
          y = map snd list_end;
          mask = ones_like mean_image
      in case setitem2_fancy mask (zip x y) 0 of
           Inl e \<Rightarrow> Inl e
         | Inr mask' \<Rightarrow> Inr (filled (ma_array mean_image mask') 0))"

text \<open>The coordinates of a list are pixels of an array: both indices are in range and
  not negative.\<close>

definition pixels_of :: "'a array2 \<Rightarrow> (int \<times> int) list \<Rightarrow> bool" where
  "pixels_of a ps =
     list_all (\<lambda>(i, j). 0 \<le> i \<and> i < int (length a) \<and> 0 \<le> j \<and> j < int (length (a ! nat i))) ps"

text \<open>Two arrays have the same shape: as many rows, and rows of the same lengths.\<close>

definition same_shape :: "'a array2 \<Rightarrow> 'b array2 \<Rightarrow> bool" where
  "same_shape a b = (map length a = map length b)"

section \<open>SimpleITK images and the per-slice registration loop\<close>

text \<open>
  A SimpleITK image has a size \<open>(sx, sy[, sz])\<close>, a spacing and its pixels; the NumPy
  view of an image lists the axes in reverse, so the pixels are kept as
  \<open>GetArrayFromImage\<close> shows them: pixel \<open>(x, y, z)\<close> is \<open>voxels ! z ! y ! x\<close>. Origin and
  direction are not touched by the notebooks and are left out; spacings are only
  copied.
\<close>

record 'a image2 =
  size2 :: "nat \<times> nat"
  spacing2 :: "real \<times> real"
  pixels :: "'a list list"

record 'a image3 =
  size3 :: "nat \<times> nat \<times> nat"
  spacing3 :: "real \<times> real \<times> real"
  voxels :: "'a list list list"

text \<open>A three-dimensional NumPy array with its shape.\<close>

record 'a ndarray3 =
  shape3 :: "nat \<times> nat \<times> nat"
  elems :: "'a list list list"

datatype itk_error = RegionOutsideImage

text \<open>\<open>sitk.Image(size, pixel_id)\<close>: an image of zeros with unit spacing.\<close>

definition sitk_Image :: "nat \<times> nat \<times> nat \<Rightarrow> ('a::zero) image3" where
  "sitk_Image sz =
     (case sz of (sx, sy, sz) \<Rightarrow>
        \<lparr>size3 = (sx, sy, sz), spacing3 = (1, 1, 1),
         voxels = replicate sz (replicate sy (replicate sx 0))\<rparr>)"

text \<open>\<open>img[i, :, :]\<close>: the two-dimensional image of the pixels with first coordinate
  \<open>i\<close>; its axes are the second and third axis of the volume.\<close>

definition slice_first :: "'a image3 \<Rightarrow> nat \<Rightarrow> 'a image2" where
  "slice_first img i =
     (case size3 img of (s0, s1, s2) \<Rightarrow>
      case spacing3 img of (p0, p1, p2) \<Rightarrow>
        \<lparr>size2 = (s1, s2), spacing2 = (p1, p2),
         pixels = map (map (\<lambda>row. row ! i)) (voxels img)\<rparr>)"

definition SetSpacing :: "'a image2 \<Rightarrow> real \<times> real \<Rightarrow> 'a image2" where
  "SetSpacing img sp = img\<lparr>spacing2 := sp\<rparr>"

text \<open>\<open>sitk.JoinSeries(img)\<close> of one image: a volume of depth 1, third spacing 1.\<close>

definition JoinSeries :: "'a image2 \<Rightarrow> 'a image3" where
  "JoinSeries img =
     (case size2 img of (sx, sy) \<Rightarrow>
      case spacing2 img of (px, py) \<Rightarrow>
        \<lparr>size3 = (sx, sy, 1), spacing3 = (px, py, 1), voxels = [pixels img]\<rparr>)"

text \<open>
  \<open>sitk.Paste(destination, source, sourceSize, destinationIndex=d)\<close>, source index
  \<open>(0, 0, 0)\<close>: the result is the destination image with the pixels of the region of
  size \<open>sourceSize\<close> at \<open>d\<close> taken from the source. The source region must lie inside the
  source image; the part of the pasted region outside the destination image is
  cropped, and the destination keeps its size.
\<close>

definition in_region :: "nat \<Rightarrow> nat \<Rightarrow> nat \<Rightarrow> bool" where
  "in_region d w x = (d \<le> x \<and> x < d + w)"

definition Paste ::
  "'a image3 \<Rightarrow> 'a image3 \<Rightarrow> nat \<times> nat \<times> nat \<Rightarrow> nat \<times> nat \<times> nat \<Rightarrow> itk_error + 'a image3" where
  "Paste dest src sourceSize destinationIndex =
     (case sourceSize of (wx, wy, wz) \<Rightarrow>
      case destinationIndex of (dx, dy, dz) \<Rightarrow>
      case size3 src of (ax, ay, az) \<Rightarrow>
      case size3 dest of (sx, sy, sz) \<Rightarrow>
        if ax < wx \<or> ay < wy \<or> az < wz then Inl RegionOutsideImage
        else Inr (dest\<lparr>voxels :=
          map (\<lambda>z. map (\<lambda>y. map (\<lambda>x.
                if in_region dx wx x \<and> in_region dy wy y \<and> in_region dz wz z
                then voxels src ! (z - dz) ! (y - dy) ! (x - dx)
                else voxels dest ! z ! y ! x)
              [0..<sx]) [0..<sy]) [0..<sz]\<rparr>))"

definition GetArrayFromImage :: "'a image3 \<Rightarrow> 'a ndarray3" where
  "GetArrayFromImage img =
     (case size3 img of (sx, sy, sz) \<Rightarrow> \<lparr>shape3 = (sz, sy, sx), elems = voxels img\<rparr>)"

text \<open>\<open>np.transpose(a, (1, 2, 0))\<close>: axis \<open>k\<close> of the result is axis \<open>(1, 2, 0)[k]\<close> of
  \<open>a\<close>, so \<open>result[i, j, k] = a[k, i, j]\<close>.\<close>

definition transpose_120 :: "'a ndarray3 \<Rightarrow> 'a ndarray3" where
  "transpose_120 a =
     (case shape3 a of (d0, d1, d2) \<Rightarrow>
        \<lparr>shape3 = (d1, d2, d0),
         elems = map (\<lambda>i. map (\<lambda>j. map (\<lambda>k. elems a ! k ! i ! j) [0..<d0]) [0..<d2]) [0..<d1]\<rparr>)"

text \<open>
  The body of the loop, the same in both notebooks; \<open>execute\<close> is
  \<open>registration.Execute\<close> of the fitted registration object.
  \<^verbatim>\<open>
  slice = registered_itk[i, :, :]
  slice.SetSpacing(optical_itk.GetSpacing())
  slice_registered = registration.Execute(slice)
  slice_registered = sitk.JoinSeries(slice_registered)
  out_register = sitk.Paste(out_register, slice_registered,
                            slice_registered.GetSize(), destinationIndex=[0, 0, i])
  \<close>
\<close>

definition register_slice ::
  "('a image2 \<Rightarrow> 'a image2) \<Rightarrow> real \<times> real \<Rightarrow> 'a image3 \<Rightarrow> nat \<Rightarrow> 'a image3 \<Rightarrow>
   itk_error + 'a image3" where
  "register_slice execute optical_spacing registered_itk i out_register =
     (let slice = slice_first registered_itk i;
          slice = SetSpacing slice optical_spacing;
          slice_registered = execute slice;
          slice_registered = JoinSeries slice_registered
      in Paste out_register slice_registered (size3 slice_registered) (0, 0, i))"

fun register_slices ::
  "('a image2 \<Rightarrow> 'a image2) \<Rightarrow> real \<times> real \<Rightarrow> 'a image3 \<Rightarrow> nat list \<Rightarrow> 'a image3 \<Rightarrow>
   itk_error + 'a image3" where
  "register_slices execute sp registered_itk [] out_register = Inr out_register"
| "register_slices execute sp registered_itk (i # is) out_register =
     (case register_slice execute sp registered_itk i out_register of
        Inl e \<Rightarrow> Inl e
      | Inr out' \<Rightarrow> register_slices execute sp registered_itk is out')"

text \<open>
  The loop of the quickstart notebook, from \<open>size = registered_itk.GetSize()\<close> to
  \<open>registered_image\<close>: \<open>out_register\<close> has size \<open>[size[2], size[1], size[0]]\<close>.
\<close>

definition quickstart_registered_image ::
  "('a image2 \<Rightarrow> 'a image2) \<Rightarrow> real \<times> real \<Rightarrow> ('a::zero) image3 \<Rightarrow> itk_error + 'a ndarray3" where
  "quickstart_registered_image execute optical_spacing registered_itk =
     (case size3 registered_itk of (s0, s1, s2) \<Rightarrow>
        case register_slices execute optical_spacing registered_itk [0..<s0]
               (sitk_Image (s2, s1, s0)) of
          Inl e \<Rightarrow> Inl e
        | Inr out_register \<Rightarrow> Inr (transpose_120 (GetArrayFromImage out_register)))"

text \<open>The loop of the advanced example: \<open>out_register\<close> has size
  \<open>[size[1], size[2], size[0]]\<close>.\<close>

definition advanced_registered_image ::
  "('a image2 \<Rightarrow> 'a image2) \<Rightarrow> real \<times> real \<Rightarrow> ('a::zero) image3 \<Rightarrow> itk_error + 'a ndarray3" where
  "advanced_registered_image execute optical_spacing registered_itk =
     (case size3 registered_itk of (s0, s1, s2) \<Rightarrow>
        case register_slices execute optical_spacing registered_itk [0..<s0]
               (sitk_Image (s1, s2, s0)) of
          Inl e \<Rightarrow> Inl e
        | Inr out_register \<Rightarrow> Inr (transpose_120 (GetArrayFromImage out_register)))"

text \<open>\<open>sitk.GetImageFromArray\<close> of a three-dimensional array: the size is the shape
  reversed.\<close>

definition GetImageFromArray :: "'a ndarray3 \<Rightarrow> 'a image3" where
  "GetImageFromArray a =
     (case shape3 a of (d0, d1, d2) \<Rightarrow>
        \<lparr>size3 = (d2, d1, d0), spacing3 = (1, 1, 1), voxels = elems a\<rparr>)"

section \<open>The quickstart notebook as a program\<close>

text \<open>
  The notebook is a straight-line script of assignments, in-place updates and one
  \<open>for\<close> loop. A statement keeps the names of the source: the variables it binds, the
  text of its right-hand side and the variables the right-hand side reads. Where the
  result of a right-hand side shares memory with an object that is already bound (a
  view \<open>a[0, 0]\<close> of an array, the data of \<open>np.ma.array(a, mask=m)\<close>, and \<open>filled\<close>, which
  returns the data itself when nothing is masked), the statement says so; the other
  NumPy and SimpleITK calls of the notebook (\<open>np.ones_like\<close>, \<open>np.in1d\<close>, indexing with a
  boolean array, \<open>sitk.GetImageFromArray\<close>, \<open>sitk.GetArrayFromImage\<close>, \<open>sitk.Cast\<close>, slicing of
  an image, \<open>sitk.JoinSeries\<close>, \<open>sitk.Paste\<close>) return new objects.
  Imports, the two \<open>display\<close> helpers and literals are not variables; \<open>sys.path\<close> is the
  import path of the interpreter, and extending it is an effect like printing.
  The texts of the right-hand sides are written without the quotes of their string
  literals.
\<close>

datatype stage = Loader | PeakAligner | Segmenter | Registrar | Fusion

datatype stmt =
    Assign "string list" string "string list"
      \<comment> \<open>\<open>targets = rhs\<close>, with the variables read by \<open>rhs\<close>\<close>
  | Alias "string list" string string "string list"
      \<comment> \<open>\<open>targets = rhs\<close> where the results share the memory of the object bound to a
          variable: a NumPy view (\<open>a[0, 0]\<close>), an element of a list, the data of a masked
          array; then the other variables read\<close>
  | InPlace string string "string list"
      \<comment> \<open>an update of the object bound to a variable: \<open>mask[x, y] = 0\<close>, \<open>slice.SetSpacing(..)\<close>\<close>
  | Show string "string list"
      \<comment> \<open>\<open>print\<close>, \<open>plt.plot\<close>, \<open>display_image\<close>: reads only\<close>
  | For string string "string list" "stmt list"
      \<comment> \<open>\<open>for v in rhs: body\<close>\<close>

text \<open>The code cells, each with the stage its section heading names: ``Input,
  Visualization'' (with the set-up cell before it), ``Spectra processing'',
  ``Segmentation'', ``Registration'', ``Joint statistical analysis''.\<close>

definition cell_setup :: "stmt list" where
  "cell_setup =
    [Assign [''rootpath''] ''../../'' [],
     Show ''sys.path.append(os.path.join(.., rootpath))'' [''rootpath'']]"

definition cell_input :: "stmt list" where
  "cell_input =
    [Assign [''imzml''] ''io.open_imzml(rootpath + data/Example_Continuous.imzML)'' [''rootpath''],
     Assign [''spectra''] ''io.get_spectra(imzml)'' [''imzml''],
     Show ''print(spectra.shape)'' [''spectra''],
     Alias [''mz_first'', ''intensities_first''] ''spectra[0, 0], spectra[0, 1]'' ''spectra'' [],
     Show ''plt.plot(mz_first, intensities_first)'' [''mz_first'', ''intensities_first'']]"

definition cell_ion_image :: "stmt list" where
  "cell_ion_image =
    [Assign [''image''] ''io.get_image(imzml, 328.9, 0.25)'' [''imzml''],
     Show ''display_image(image)'' [''image'']]"

definition cell_optical :: "stmt list" where
  "cell_optical =
    [Assign [''optical_image''] ''plt.imread(rootpath + data/Example_Optical.png)'' [''rootpath''],
     Show ''display_image(optical_image)'' [''optical_image'']]"

definition cell_peaks :: "stmt list" where
  "cell_peaks =
    [Assign [''prominence_local_factor''] ''5'' [],
     Assign [''window_length''] ''7000'' [],
     Assign [''detected_mzs'']
       ''sp.spectra_peak_mzs_adaptative(spectra, factor=prominence_local_factor, wlen=window_length)''
       [''spectra'', ''prominence_local_factor'', ''window_length''],
     Alias [''detected_mz_first''] ''detected_mzs[0]'' ''detected_mzs'' [],
     Assign [''indices''] ''np.in1d(mz_first, detected_mz_first)'' [''mz_first'', ''detected_mz_first''],
     Assign [''detected_intensities_first''] ''intensities_first[indices]''
       [''intensities_first'', ''indices''],
     Show ''plt.plot(mz_first, intensities_first, detected_mz_first, detected_intensities_first, o)''
       [''mz_first'', ''intensities_first'', ''detected_mz_first'', ''detected_intensities_first'']]"

definition cell_align :: "stmt list" where
  "cell_align =
    [Assign [''realigned_spectra'']
       ''sp.realign_mzs(spectra, detected_mzs, reference=median, nb_occurrence=1, step=0.05)''
       [''spectra'', ''detected_mzs''],
     Alias [''mzs''] ''realigned_spectra[0, 0, :]'' ''realigned_spectra'' [],
     Show ''print(realigned_spectra.shape)'' [''realigned_spectra'']]"

definition cell_segmentation :: "stmt list" where
  "cell_segmentation =
    [Assign [''maldi_image''] ''io.get_images_from_spectra(realigned_spectra, (3,3))''
       [''realigned_spectra''],
     Assign [''maldi_image''] ''io.normalize(maldi_image)'' [''maldi_image''],
     Assign [''spatially_coherent'']
       ''seg.find_similar_images_spatial_coherence(maldi_image, 0, quantiles=[60, 70, 80, 90])''
       [''maldi_image''],
     Assign [''mean_image''] ''np.average(spatially_coherent, axis=-1)'' [''spatially_coherent''],
     Assign [''seeds''] ''set(((1, 1), (0, 0)))'' [],
     Assign [''list_end'', ''_'']
       ''seg.region_growing(spatially_coherent, seedList=seeds, lower_threshold=50)''
       [''spatially_coherent'', ''seeds''],
     Assign [''x''] ''[elem[0] for elem in list_end]'' [''list_end''],
     Assign [''y''] ''[elem[1] for elem in list_end]'' [''list_end''],
     Assign [''mask''] ''np.ones_like(mean_image)'' [''mean_image''],
     InPlace ''mask'' ''[x, y] = 0'' [''x'', ''y''],
     Alias [''segmented_image''] ''np.ma.array(mean_image, mask=mask)'' ''mean_image'' [''mask''],
     Alias [''segmented_image''] ''segmented_image.filled(0)'' ''segmented_image'' [],
     Show ''display_image(segmented_image)'' [''segmented_image'']]"

definition cell_registration :: "stmt list" where
  "cell_registration =
    [Assign [''segmented_itk''] ''sitk.Cast(sitk.GetImageFromArray(segmented_image), sitk.sitkFloat32)''
       [''segmented_image''],
     Assign [''optical_itk''] ''sitk.Cast(sitk.GetImageFromArray(optical_image), sitk.sitkFloat32)''
       [''optical_image''],
     Assign [''segmented_itk''] ''utils.resize(segmented_itk, optical_itk.GetSize())''
       [''segmented_itk'', ''optical_itk''],
     Assign [''segmented_itk''] ''sitk.Cast(segmented_itk, sitk.sitkFloat32)'' [''segmented_itk''],
     Assign [''number_bins''] ''8'' [],
     Assign [''sampling_percentage''] ''0.1'' [],
     Assign [''registration'']
       ''reg.register(optical_itk, segmented_itk, number_bins, sampling_percentage, seed=0, learning_rate=0.8, relaxation_factor=0.8, min_step=0.0001)''
       [''optical_itk'', ''segmented_itk'', ''number_bins'', ''sampling_percentage''],
     Assign [''registered_seg_itk''] ''registration.Execute(segmented_itk)''
       [''registration'', ''segmented_itk''],
     Assign [''registered_seg_image''] ''sitk.GetArrayFromImage(registered_seg_itk)''
       [''registered_seg_itk''],
     Show ''display_images(optical_image, segmented_image, registered_seg_image)''
       [''optical_image'', ''segmented_image'', ''registered_seg_image'']]"

definition cell_apply_registration :: "stmt list" where
  "cell_apply_registration =
    [Assign [''registered_itk''] ''sitk.GetImageFromArray(maldi_image)'' [''maldi_image''],
     Assign [''registered_itk''] ''utils.resize(registered_itk, optical_itk.GetSize())''
       [''registered_itk'', ''optical_itk''],
     Assign [''registered_itk''] ''sitk.Cast(registered_itk, sitk.sitkFloat32)'' [''registered_itk''],
     Assign [''size''] ''registered_itk.GetSize()'' [''registered_itk''],
     Assign [''size''] ''[size[2], size[1], size[0]]'' [''size''],
     Assign [''out_register''] ''sitk.Image(size, registered_itk.GetPixelID())''
       [''size'', ''registered_itk''],
     For ''i'' ''range(registered_itk.GetSize()[0])'' [''registered_itk'']
       [Assign [''slice''] ''registered_itk[i, :, :]'' [''registered_itk'', ''i''],
        InPlace ''slice'' ''SetSpacing(optical_itk.GetSpacing())'' [''optical_itk''],
        Assign [''slice_registered''] ''registration.Execute(slice)'' [''registration'', ''slice''],
        Assign [''slice_registered''] ''sitk.JoinSeries(slice_registered)'' [''slice_registered''],
        Assign [''out_register'']
          ''sitk.Paste(out_register, slice_registered, slice_registered.GetSize(), destinationIndex=[0, 0, i])''
          [''out_register'', ''slice_registered'', ''i'']],
     Assign [''registered_image''] ''np.transpose(sitk.GetArrayFromImage(out_register), (1, 2, 0))''
       [''out_register'']]"

definition cell_fusion :: "stmt list" where
  "cell_fusion =
    [Assign [''optical_flatten''] ''fusion.flatten(optical_image)'' [''optical_image''],
     Assign [''maldi_flatten''] ''fusion.flatten(registered_image, is_spectral=True)''
       [''registered_image''],
     Show ''print(maldi_flatten.shape)'' [''maldi_flatten''],
     Assign [''fit_red''] ''fusion.pca(maldi_flatten, n=5)'' [''maldi_flatten''],
     Assign [''reduction''] ''fit_red.transform(maldi_flatten)'' [''fit_red'', ''maldi_flatten''],
     Assign [''point_optical''] ''fit_red.transform(optical_flatten)'' [''fit_red'', ''optical_flatten''],
     Assign [''weights''] ''[1 for i in range(reduction.shape[1])]'' [''reduction''],
     Assign [''similar_images'', ''similar_mzs'', ''distances'']
       ''fusion.select_images(registered_image, point_optical, reduction, weights, mzs, labels=None, top=None)''
       [''registered_image'', ''point_optical'', ''reduction'', ''weights'', ''mzs''],
     Show ''print(Closest m/z ratio, similar_mzs[:3])'' [''similar_mzs''],
     Show ''display_images(optical_image, similar_images[..., 0], similar_images[..., 1], similar_images[..., 2])''
       [''optical_image'', ''similar_images'']]"

definition quickstart :: "(stage \<times> stmt list) list" where
  "quickstart =
    [(Loader, cell_setup), (Loader, cell_input), (Loader, cell_ion_image), (Loader, cell_optical),
     (PeakAligner, cell_peaks), (PeakAligner, cell_align),
     (Segmenter, cell_segmentation),
     (Registrar, cell_registration), (Registrar, cell_apply_registration),
     (Fusion, cell_fusion)]"

subsection \<open>Who reads what\<close>

text \<open>
  The statements are scanned in the order they run, remembering for every variable
  the stage that bound it last. Every read gives a flow: the reading stage, the
  variable and the stage that bound it (\<open>None\<close> when it is read before it is bound). The
  body of the loop is scanned once: a second pass binds and reads the same names in
  the same stage.
\<close>

type_synonym flow = "stage \<times> string \<times> stage option"

fun bind_all :: "stage \<Rightarrow> string list \<Rightarrow> (string \<times> stage) list \<Rightarrow> (string \<times> stage) list" where
  "bind_all g [] env = env"
| "bind_all g (v # vs) env = bind_all g vs ((v, g) # env)"

definition reads_of :: "stage \<Rightarrow> (string \<times> stage) list \<Rightarrow> string list \<Rightarrow> flow list" where
  "reads_of g env vs = map (\<lambda>v. (g, v, map_of env v)) vs"

fun flows_stmt :: "stage \<Rightarrow> stmt \<Rightarrow> (string \<times> stage) list \<Rightarrow> flow list \<times> (string \<times> stage) list"
  and flows_stmts :: "stage \<Rightarrow> stmt list \<Rightarrow> (string \<times> stage) list \<Rightarrow> flow list \<times> (string \<times> stage) list"
where
  "flows_stmt g (Assign ts e vs) env = (reads_of g env vs, bind_all g ts env)"
| "flows_stmt g (Alias ts e b vs) env = (reads_of g env (b # vs), bind_all g ts env)"
| "flows_stmt g (InPlace v e vs) env = (reads_of g env (v # vs), env)"
| "flows_stmt g (Show e vs) env = (reads_of g env vs, env)"
| "flows_stmt g (For v e vs body) env =
     (case flows_stmts g body (bind_all g [v] env) of
        (fs, env') \<Rightarrow> (reads_of g env vs @ fs, env'))"
| "flows_stmts g [] env = ([], env)"
| "flows_stmts g (s # ss) env =
     (case flows_stmt g s env of
        (fs, env') \<Rightarrow> (case flows_stmts g ss env' of (fs', env'') \<Rightarrow> (fs @ fs', env'')))"

fun flows_cells :: "(stage \<times> stmt list) list \<Rightarrow> (string \<times> stage) list \<Rightarrow> flow list" where
  "flows_cells [] env = []"
| "flows_cells ((g, ss) # cs) env =
     (case flows_stmts g ss env of (fs, env') \<Rightarrow> fs @ flows_cells cs env')"

definition flows :: "(stage \<times> stmt list) list \<Rightarrow> flow list" where
  "flows cells = flows_cells cells []"

text \<open>The flows that cross from one stage to another, each once.\<close>

definition cross_flows :: "(stage \<times> stmt list) list \<Rightarrow> flow list" where
  "cross_flows cells = remdups (filter (\<lambda>(g, v, p). p \<noteq> Some g) (flows cells))"

fun rank :: "stage \<Rightarrow> nat" where
  "rank Loader = 0"
| "rank PeakAligner = 1"
| "rank Segmenter = 2"
| "rank Registrar = 3"
| "rank Fusion = 4"

text \<open>The order in which the stages run: the stages of the cells, a run of cells of one
  stage counted once.\<close>

definition stage_order :: "(stage \<times> stmt list) list \<Rightarrow> stage list" where
  "stage_order cells = remdups_adj (map fst cells)"

text \<open>A flow comes from an earlier stage, or from the stage just before.\<close>

definition from_earlier :: "flow \<Rightarrow> bool" where
  "from_earlier f = (case f of (g, v, p) \<Rightarrow> (case p of None \<Rightarrow> False | Some q \<Rightarrow> rank q \<le> rank g))"

definition from_previous :: "flow \<Rightarrow> bool" where
  "from_previous f =
     (case f of (g, v, p) \<Rightarrow> (case p of None \<Rightarrow> False | Some q \<Rightarrow> rank q = rank g \<or> Suc (rank q) = rank g))"

section \<open>The segmentation cell with its library calls\<close>

text \<open>
  The functions of \<open>esmraldi.imzmlio\<close> and \<open>esmraldi.segmentation\<close> that the cell calls
  are not part of the notebooks; they are parameters here, and so is \<open>np.average\<close> along
  the last axis (a floating-point mean). An image array has the axes row, column, ion
  image. \<open>region_growing\<close> returns the list of grown pixels and a second result that
  the cell drops.
\<close>

record ('a, 's, 'r) library =
  get_images_from_spectra :: "'s \<Rightarrow> nat \<times> nat \<Rightarrow> 'a array3"
  normalize :: "'a array3 \<Rightarrow> 'a array3"
  find_similar_images_spatial_coherence :: "'a array3 \<Rightarrow> int \<Rightarrow> int list \<Rightarrow> 'a array3"
  region_growing :: "'a array3 \<Rightarrow> (int \<times> int) set \<Rightarrow> int \<Rightarrow> (int \<times> int) list \<times> 'r"
  np_average :: "'a list \<Rightarrow> 'a"

text \<open>\<open>np.average(a, axis=-1)\<close>: the mean of the ion images at every pixel.\<close>

definition average_last :: "('a list \<Rightarrow> 'a) \<Rightarrow> 'a array3 \<Rightarrow> 'a array2" where
  "average_last avg a = map (map avg) a"

text \<open>
  The cell from \<open># Relevant images\<close> on. The two notebooks differ in the coherence
  threshold (0 and 300) and in the lower threshold of the region growing (50 and 30).
  \<^verbatim>\<open>
  spatially_coherent = seg.find_similar_images_spatial_coherence(maldi_image, 0, quantiles=[60, 70, 80, 90])
  mean_image = np.average(spatially_coherent, axis=-1)
  seeds = set(((1, 1), (0, 0)))
  list_end, _ = seg.region_growing(spatially_coherent, seedList=seeds, lower_threshold=50)
  \<close>
  followed by the construction of \<open>segmented_image\<close> above.
\<close>

definition segmentation ::
  "('a::zero_neq_one, 's, 'r) library \<Rightarrow> 'a array3 \<Rightarrow> int \<Rightarrow> int \<Rightarrow> py_error + 'a array2" where
  "segmentation lib maldi_image factor lower_threshold =
     (let spatially_coherent =
            find_similar_images_spatial_coherence lib maldi_image factor [60, 70, 80, 90];
          mean_image = average_last (np_average lib) spatially_coherent;
          seeds = {(1, 1), (0, 0)};
          (list_end, _) = region_growing lib spatially_coherent seeds lower_threshold
      in segmented_image_of mean_image list_end)"

text \<open>The whole cell of the quickstart notebook.\<close>

definition quickstart_segmentation ::
  "('a::zero_neq_one, 's, 'r) library \<Rightarrow> 's \<Rightarrow> py_error + 'a array2" where
  "quickstart_segmentation lib realigned_spectra =
     (let maldi_image = get_images_from_spectra lib realigned_spectra (3, 3);
          maldi_image = normalize lib maldi_image
      in segmentation lib maldi_image 0 50)"

text \<open>A small library to run the cell on: the selection keeps the first two ion
  images, the region growing returns two pixels, the average is the exact mean.\<close>

definition toy_library :: "(real, unit, unit) library" where
  "toy_library =
     \<lparr>get_images_from_spectra = (\<lambda>_ _. []),
      normalize = (\<lambda>a. a),
      find_similar_images_spatial_coherence = (\<lambda>a factor quantiles. map (map (take 2)) a),
      region_growing = (\<lambda>a seeds lower. ([(0, 0), (1, 1)], ())),
      np_average = (\<lambda>xs. sum_list xs / real (length xs))\<rparr>"

section \<open>The registration cells\<close>

text \<open>
  \<open>sitk.Cast\<close>, \<open>utils.resize\<close>, \<open>reg.register\<close> and the \<open>Execute\<close> method of the object that
  \<open>reg.register\<close> returns are library calls, parameters here; \<open>Cast\<close> and \<open>resize\<close> are
  called on images and on volumes. \<open>reg.register\<close> takes the fixed image, the moving
  image, the number of bins, the sampling percentage, the seed, the learning rate,
  the relaxation factor and the minimal step.
\<close>

record ('a, 'g) registration_library =
  Cast :: "'a image2 \<Rightarrow> 'a image2"
  Cast3 :: "'a image3 \<Rightarrow> 'a image3"
  resize :: "'a image2 \<Rightarrow> nat \<times> nat \<Rightarrow> 'a image2"
  resize3 :: "'a image3 \<Rightarrow> nat \<times> nat \<Rightarrow> 'a image3"
  register :: "'a image2 \<Rightarrow> 'a image2 \<Rightarrow> nat \<Rightarrow> real \<Rightarrow> int \<Rightarrow> real \<Rightarrow> real \<Rightarrow> real \<Rightarrow> 'g"
  Execute :: "'g \<Rightarrow> 'a image2 \<Rightarrow> 'a image2"

text \<open>\<open>sitk.GetImageFromArray\<close> and \<open>sitk.GetArrayFromImage\<close> of a two-dimensional array:
  the size is (columns, rows).\<close>

definition GetImageFromArray2 :: "'a array2 \<Rightarrow> 'a image2" where
  "GetImageFromArray2 a =
     \<lparr>size2 = (case a of [] \<Rightarrow> 0 | row # _ \<Rightarrow> length row, length a), spacing2 = (1, 1), pixels = a\<rparr>"

definition GetArrayFromImage2 :: "'a image2 \<Rightarrow> 'a array2" where
  "GetArrayFromImage2 img = pixels img"

text \<open>
  The first registration cell, the same in both notebooks.
  \<^verbatim>\<open>
  segmented_itk = sitk.Cast(sitk.GetImageFromArray(segmented_image), sitk.sitkFloat32)
  optical_itk = sitk.Cast(sitk.GetImageFromArray(optical_image), sitk.sitkFloat32)
  segmented_itk = utils.resize(segmented_itk, optical_itk.GetSize())
  segmented_itk = sitk.Cast(segmented_itk, sitk.sitkFloat32)
  \<close>
\<close>

definition optical_itk_of :: "('a, 'g) registration_library \<Rightarrow> 'a array2 \<Rightarrow> 'a image2" where
  "optical_itk_of lib optical_image = Cast lib (GetImageFromArray2 optical_image)"

definition segmented_itk_of ::
  "('a, 'g) registration_library \<Rightarrow> 'a array2 \<Rightarrow> 'a array2 \<Rightarrow> 'a image2" where
  "segmented_itk_of lib optical_image segmented_image =
     (let segmented_itk = Cast lib (GetImageFromArray2 segmented_image);
          optical_itk = optical_itk_of lib optical_image;
          segmented_itk = resize lib segmented_itk (size2 optical_itk)
      in Cast lib segmented_itk)"

text \<open>
  \<^verbatim>\<open>
  number_bins = 8
  sampling_percentage = 0.1
  registration = reg.register(optical_itk, segmented_itk, number_bins, sampling_percentage,
      seed=0, learning_rate=0.8, relaxation_factor=0.8, min_step=0.0001)
  registered_seg_itk = registration.Execute(segmented_itk)
  registered_seg_image = sitk.GetArrayFromImage(registered_seg_itk)
  \<close>
\<close>

definition registration_of ::
  "('a, 'g) registration_library \<Rightarrow> 'a array2 \<Rightarrow> 'a array2 \<Rightarrow> 'g" where
  "registration_of lib optical_image segmented_image =
     (let optical_itk = optical_itk_of lib optical_image;
          segmented_itk = segmented_itk_of lib optical_image segmented_image;
          number_bins = 8;
          sampling_percentage = 0.1
      in register lib optical_itk segmented_itk number_bins sampling_percentage 0 0.8 0.8 0.0001)"

definition registered_seg_image_of ::
  "('a, 'g) registration_library \<Rightarrow> 'a array2 \<Rightarrow> 'a array2 \<Rightarrow> 'a array2" where
  "registered_seg_image_of lib optical_image segmented_image =
     (let segmented_itk = segmented_itk_of lib optical_image segmented_image;
          registration = registration_of lib optical_image segmented_image;
          registered_seg_itk = Execute lib registration segmented_itk
      in GetArrayFromImage2 registered_seg_itk)"

text \<open>
  The second registration cell, up to the loop.
  \<^verbatim>\<open>
  registered_itk = sitk.GetImageFromArray(maldi_image)
  registered_itk = utils.resize(registered_itk, optical_itk.GetSize())
  registered_itk = sitk.Cast(registered_itk, sitk.sitkFloat32)
  \<close>
\<close>

definition registered_itk_of ::
  "('a, 'g) registration_library \<Rightarrow> 'a array2 \<Rightarrow> 'a ndarray3 \<Rightarrow> 'a image3" where
  "registered_itk_of lib optical_image maldi_image =
     (let registered_itk = GetImageFromArray maldi_image;
          registered_itk = resize3 lib registered_itk (size2 (optical_itk_of lib optical_image))
      in Cast3 lib registered_itk)"

text \<open>The two registration cells of the quickstart notebook: what is displayed as the
  registered segmented image, and \<open>registered_image\<close>.\<close>

definition quickstart_registration ::
  "(('a::zero), 'g) registration_library \<Rightarrow> 'a array2 \<Rightarrow> 'a array2 \<Rightarrow> 'a ndarray3 \<Rightarrow>
   'a array2 \<times> (itk_error + 'a ndarray3)" where
  "quickstart_registration lib optical_image segmented_image maldi_image =
     (let optical_itk = optical_itk_of lib optical_image;
          registration = registration_of lib optical_image segmented_image;
          registered_seg_image = registered_seg_image_of lib optical_image segmented_image;
          registered_itk = registered_itk_of lib optical_image maldi_image
      in (registered_seg_image,
          quickstart_registered_image (Execute lib registration) (spacing2 optical_itk)
            registered_itk))"

text \<open>The MALDI images that the two cells hand to \<open>Execute\<close>: the resized segmented image
  and, with the spacing of the optical image, the slices of the resized volume.\<close>

definition maldi_inputs ::
  "('a, 'g) registration_library \<Rightarrow> 'a array2 \<Rightarrow> 'a array2 \<Rightarrow> 'a ndarray3 \<Rightarrow> 'a image2 list" where
  "maldi_inputs lib optical_image segmented_image maldi_image =
     (let optical_itk = optical_itk_of lib optical_image;
          registered_itk = registered_itk_of lib optical_image maldi_image
      in segmented_itk_of lib optical_image segmented_image #
         map (\<lambda>i. SetSpacing (slice_first registered_itk i) (spacing2 optical_itk))
           [0..<fst (size3 registered_itk)])"

text \<open>The two registration cells of the advanced example: they differ from the
  quickstart in the size of \<open>out_register\<close> only.\<close>

definition advanced_registration ::
  "(('a::zero), 'g) registration_library \<Rightarrow> 'a array2 \<Rightarrow> 'a array2 \<Rightarrow> 'a ndarray3 \<Rightarrow>
   'a array2 \<times> (itk_error + 'a ndarray3)" where
  "advanced_registration lib optical_image segmented_image maldi_image =
     (let optical_itk = optical_itk_of lib optical_image;
          registration = registration_of lib optical_image segmented_image;
          registered_seg_image = registered_seg_image_of lib optical_image segmented_image;
          registered_itk = registered_itk_of lib optical_image maldi_image
      in (registered_seg_image,
          advanced_registered_image (Execute lib registration) (spacing2 optical_itk)
            registered_itk))"

subsection \<open>The registration object\<close>

text \<open>
  Modelled from the spec: \<open>esmraldi.registration.register\<close> and the \<open>Execute\<close> method of the
  object it returns are not part of the notebooks. The notebooks say that ``we register
  the MALDI segmented image onto the optical image'', call the optical image the fixed
  image, and list the components of the registration: a rigid transform, whose
  parameters an optimizer estimates from the two images, and a nearest neighbor
  interpolator. So the registration object holds the grid of the fixed image, its size
  and spacing, and the fitted transform, which maps a point of the fixed image to a
  point of the moving image. The optimizer is a parameter: what it computes from the two
  images and the six settings is not described.
\<close>

record registration_method =
  reference_size :: "nat \<times> nat"
  reference_spacing :: "real \<times> real"
  fitted_transform :: "real \<times> real \<Rightarrow> real \<times> real"

text \<open>
  Modelled from the spec: the nearest neighbor interpolator. The value of an image at a
  physical point is the pixel whose index is the point divided by the spacing, rounded;
  the origin is the pixel of index (0, 0), and a point outside the image has the value 0.
\<close>

definition nearest_pixel :: "('a::zero) image2 \<Rightarrow> real \<times> real \<Rightarrow> 'a" where
  "nearest_pixel img p =
     (case p of (px, py) \<Rightarrow>
      case spacing2 img of (mx, my) \<Rightarrow>
      case size2 img of (w, h) \<Rightarrow>
        (let i = round (px / mx); j = round (py / my)
         in if 0 \<le> i \<and> i < int w \<and> 0 \<le> j \<and> j < int h then pixels img ! nat j ! nat i else 0))"

text \<open>
  Modelled from the spec: an image resampled into a grid of size \<open>sz\<close> and spacing \<open>sp\<close>
  through the transform \<open>t\<close>. The pixel of index \<open>(x, y)\<close> of the result is the value of the
  image at the transformed physical point of that pixel.
\<close>

definition resample ::
  "('a::zero) image2 \<Rightarrow> nat \<times> nat \<Rightarrow> real \<times> real \<Rightarrow> (real \<times> real \<Rightarrow> real \<times> real) \<Rightarrow> 'a image2" where
  "resample img sz sp t =
     (case sz of (w, h) \<Rightarrow>
      case sp of (sx, sy) \<Rightarrow>
        \<lparr>size2 = (w, h), spacing2 = (sx, sy),
         pixels = map (\<lambda>y. map (\<lambda>x. nearest_pixel img (t (real x * sx, real y * sy))) [0..<w]) [0..<h]\<rparr>)"

text \<open>
  Modelled from the spec: \<open>reg.register(fixed, moving, ...)\<close> fits the transform and keeps
  the grid of its first argument, the fixed image.
\<close>

definition register_fit ::
  "('a image2 \<Rightarrow> 'a image2 \<Rightarrow> nat \<Rightarrow> real \<Rightarrow> int \<Rightarrow> real \<Rightarrow> real \<Rightarrow> real \<Rightarrow> real \<times> real \<Rightarrow> real \<times> real) \<Rightarrow>
   'a image2 \<Rightarrow> 'a image2 \<Rightarrow> nat \<Rightarrow> real \<Rightarrow> int \<Rightarrow> real \<Rightarrow> real \<Rightarrow> real \<Rightarrow> registration_method" where
  "register_fit optimizer fixed moving number_bins sampling_percentage seed learning_rate
     relaxation_factor min_step =
     \<lparr>reference_size = size2 fixed, reference_spacing = spacing2 fixed,
      fitted_transform = optimizer fixed moving number_bins sampling_percentage seed learning_rate
        relaxation_factor min_step\<rparr>"

text \<open>
  Modelled from the spec: \<open>registration.Execute(image)\<close> returns the image resampled into
  the grid of the fixed image through the fitted transform.
\<close>

definition Execute_resample :: "registration_method \<Rightarrow> ('a::zero) image2 \<Rightarrow> 'a image2" where
  "Execute_resample g img =
     resample img (reference_size g) (reference_spacing g) (fitted_transform g)"

text \<open>A plane of \<open>h\<close> rows of \<open>w\<close> pixels.\<close>

definition wf_plane :: "nat \<Rightarrow> nat \<Rightarrow> 'a list list \<Rightarrow> bool" where
  "wf_plane w h p = (length p = h \<and> list_all (\<lambda>row. length row = w) p)"

text \<open>A small library to run the cells on: no cast, no resizing, and an optimizer that
  always fits the translation by one unit along the first axis.\<close>

definition shift_optimizer ::
  "int image2 \<Rightarrow> int image2 \<Rightarrow> nat \<Rightarrow> real \<Rightarrow> int \<Rightarrow> real \<Rightarrow> real \<Rightarrow> real \<Rightarrow> real \<times> real \<Rightarrow> real \<times> real" where
  "shift_optimizer fixed moving number_bins sampling_percentage seed learning_rate
     relaxation_factor min_step p = (fst p + 1, snd p)"

definition shift_registration :: "(int, registration_method) registration_library" where
  "shift_registration =
     \<lparr>Cast = (\<lambda>img. img), Cast3 = (\<lambda>img. img),
      resize = (\<lambda>img sz. img), resize3 = (\<lambda>img sz. img),
      register = register_fit shift_optimizer,
      Execute = Execute_resample\<rparr>"

text \<open>Another \<open>Execute\<close>: it blanks the optical image of the example below and
  resamples every other image.\<close>

definition blank_optical :: "registration_method \<Rightarrow> int image2 \<Rightarrow> int image2" where
  "blank_optical g img =
     (if img = GetImageFromArray2 [[1, 2], [3, 4]] then img\<lparr>pixels := [[0, 0], [0, 0]]\<rparr>
      else Execute_resample g img)"

section \<open>The fusion cell\<close>

text \<open>
  \<open>fusion.flatten\<close>, \<open>fusion.pca\<close>, \<open>fusion.nmf\<close>, the \<open>transform\<close> method of the fitted model
  and \<open>astype(np.float32)\<close> are library calls, parameters here. A flattened image is
  kept abstract; \<open>transform\<close> returns one row of components for every sample.
  The weighted distance between a row and the projected reference image is a
  parameter as well.
\<close>

record ('a, 'f, 'm, 'c) fusion_library =
  flatten :: "'a array2 \<Rightarrow> 'f"
  flatten_spectral :: "'a ndarray3 \<Rightarrow> 'f"
  astype_float32 :: "'f \<Rightarrow> 'f"
  pca :: "'f \<Rightarrow> nat \<Rightarrow> 'm"
  nmf :: "'f \<Rightarrow> nat \<Rightarrow> 'm"
  transform :: "'m \<Rightarrow> 'f \<Rightarrow> 'c array2"
  distance :: "int list \<Rightarrow> 'c list \<Rightarrow> 'c array2 \<Rightarrow> real"

text \<open>\<open>a[..., i]\<close>, the ion image \<open>i\<close> of an array whose last axis lists the ions, and
  \<open>a[..., idx]\<close>, the array of the ion images listed in \<open>idx\<close>.\<close>

definition ion_image :: "'a ndarray3 \<Rightarrow> nat \<Rightarrow> 'a array2" where
  "ion_image a i = map (map (\<lambda>px. px ! i)) (elems a)"

definition take_ions :: "'a ndarray3 \<Rightarrow> nat list \<Rightarrow> 'a ndarray3" where
  "take_ions a idx =
     (case shape3 a of (d0, d1, d2) \<Rightarrow>
        \<lparr>shape3 = (d0, d1, length idx),
         elems = map (map (\<lambda>px. map (\<lambda>i. px ! i) idx)) (elems a)\<rparr>)"

text \<open>\<open>np.argsort\<close>: the indices of a list of distances, by ascending distance; equal
  distances keep their order.\<close>

definition argsort :: "real list \<Rightarrow> nat list" where
  "argsort ds = map fst (sort_key snd (zip [0..<length ds] ds))"

text \<open>
  Modelled from the spec: \<open>esmraldi.fusion.select_images\<close> is not part of the notebooks.
  The notebooks and the usage guide say that it finds the ion images closest to the
  reference image, by the distance in the reduced space, and returns them in
  ascending order with their m/z values and distances; with \<open>top=None\<close> all images are
  returned. The three results are taken by NumPy indexing with the sorted indices,
  which raises \<open>IndexError\<close> for an index beyond the m/z values or the ion images.
\<close>

definition select_images ::
  "('a, 'f, 'm, 'c) fusion_library \<Rightarrow> 'a ndarray3 \<Rightarrow> 'c array2 \<Rightarrow> 'c array2 \<Rightarrow> int list \<Rightarrow>
   'z list \<Rightarrow> py_error + 'a ndarray3 \<times> 'z list \<times> real list" where
  "select_images lib images point centers weights mzs =
     (let distances = map (\<lambda>row. distance lib weights row point) centers;
          indices = argsort distances
      in if list_all (\<lambda>i. i < length mzs \<and> i < snd (snd (shape3 images))) indices
         then Inr (take_ions images indices, map (\<lambda>i. mzs ! i) indices,
                   map (\<lambda>i. distances ! i) indices)
         else Inl IndexError)"

text \<open>\<open>a.shape[1]\<close> of a two-dimensional array.\<close>

definition shape1 :: "'c array2 \<Rightarrow> nat" where
  "shape1 a = (case a of [] \<Rightarrow> 0 | row # _ \<Rightarrow> length row)"

text \<open>
  The lines that both notebooks share:
  \<^verbatim>\<open>
  reduction = fit_red.transform(maldi_flatten)
  point_optical = fit_red.transform(optical_flatten)
  weights = [1 for i in range(reduction.shape[1])]
  similar_images, similar_mzs, distances = fusion.select_images(registered_image,
      point_optical, reduction, weights, mzs, labels=None, top=None)
  \<close>
\<close>

definition rank_images ::
  "('a, 'f, 'm, 'c) fusion_library \<Rightarrow> 'm \<Rightarrow> 'f \<Rightarrow> 'f \<Rightarrow> 'a ndarray3 \<Rightarrow> 'z list \<Rightarrow>
   py_error + 'a ndarray3 \<times> 'z list \<times> real list" where
  "rank_images lib fit_red maldi_flatten optical_flatten registered_image mzs =
     (let reduction = transform lib fit_red maldi_flatten;
          point_optical = transform lib fit_red optical_flatten;
          weights = map (\<lambda>i. 1) [0..<shape1 reduction]
      in select_images lib registered_image point_optical reduction weights mzs)"

text \<open>
  The cell of the quickstart notebook:
  \<^verbatim>\<open>
  optical_flatten = fusion.flatten(optical_image)
  maldi_flatten = fusion.flatten(registered_image, is_spectral=True)
  fit_red = fusion.pca(maldi_flatten, n=5)
  \<close>
\<close>

definition quickstart_fusion ::
  "('a, 'f, 'm, 'c) fusion_library \<Rightarrow> 'a array2 \<Rightarrow> 'a ndarray3 \<Rightarrow> 'z list \<Rightarrow>
   py_error + 'a ndarray3 \<times> 'z list \<times> real list" where
  "quickstart_fusion lib optical_image registered_image mzs =
     (let optical_flatten = flatten lib optical_image;
          maldi_flatten = flatten_spectral lib registered_image;
          fit_red = pca lib maldi_flatten 5
      in rank_images lib fit_red maldi_flatten optical_flatten registered_image mzs)"

text \<open>
  The cell of the advanced example:
  \<^verbatim>\<open>
  optical_flatten = fusion.flatten(optical_image).astype(np.float32)
  maldi_flatten = fusion.flatten(registered_image, is_spectral=True)
  fit_red = fusion.nmf(maldi_flatten, n=5)
  \<close>
\<close>

definition advanced_fusion ::
  "('a, 'f, 'm, 'c) fusion_library \<Rightarrow> 'a array2 \<Rightarrow> 'a ndarray3 \<Rightarrow> 'z list \<Rightarrow>
   py_error + 'a ndarray3 \<times> 'z list \<times> real list" where
  "advanced_fusion lib optical_image registered_image mzs =
     (let optical_flatten = astype_float32 lib (flatten lib optical_image);
          maldi_flatten = flatten_spectral lib registered_image;
          fit_red = nmf lib maldi_flatten 5
      in rank_images lib fit_red maldi_flatten optical_flatten registered_image mzs)"

text \<open>A small library to run the cell on: a flattened image is the list of its
  samples, the reduction has one component, the sum of a sample, and the distance is
  the absolute difference.\<close>

definition toy_fusion :: "(int, int list list, unit, real) fusion_library" where
  "toy_fusion =
     \<lparr>flatten = (\<lambda>a. [concat a]),
      flatten_spectral = (\<lambda>a. map (\<lambda>i. concat (ion_image a i)) [0..<snd (snd (shape3 a))]),
      astype_float32 = (\<lambda>f. f),
      pca = (\<lambda>f n. ()),
      nmf = (\<lambda>f n. ()),
      transform = (\<lambda>m f. map (\<lambda>row. [real_of_int (sum_list row)]) f),
      distance = (\<lambda>w row point. \<bar>hd row - hd (hd point)\<bar>)\<rparr>"

section \<open>Properties of the segmentation mask\<close>

lemma py_index_in_range: "0 \<le> i \<Longrightarrow> i < int n \<Longrightarrow> py_index n i = Inr (nat i)"
  by (simp add: py_index_def)

lemma setitem2_in_range:
  assumes "0 \<le> i" "i < int (length a)" "0 \<le> j" "j < int (length (a ! nat i))"
  shows "setitem2 a i j v = Inr (a[nat i := (a ! nat i)[nat j := v]])"
  using assms by (simp add: setitem2_def py_index_in_range)

lemma same_shape_length: "same_shape a b \<Longrightarrow> length a = length b"
  unfolding same_shape_def by (metis length_map)

lemma same_shape_row: "same_shape a b \<Longrightarrow> r < length a \<Longrightarrow> length (a ! r) = length (b ! r)"
  unfolding same_shape_def by (metis length_map nth_map)

lemma same_shape_update: "r < length a \<Longrightarrow> same_shape (a[r := (a ! r)[c := v]]) a"
  unfolding same_shape_def by (simp add: map_update list_update_same_conv)

lemma same_shape_trans: "same_shape a b \<Longrightarrow> same_shape b c \<Longrightarrow> same_shape a c"
  by (simp add: same_shape_def)

lemma pixels_of_same_shape:
  assumes "same_shape a b"
  shows "pixels_of a ps = pixels_of b ps"
proof -
  have len: "length a = length b" using assms by (rule same_shape_length)
  have row: "length (a ! nat i) = length (b ! nat i)" if "0 \<le> i" "i < int (length a)" for i
    using same_shape_row[OF assms, of "nat i"] that by simp
  have "(0 \<le> i \<and> i < int (length a) \<and> 0 \<le> j \<and> j < int (length (a ! nat i))) =
        (0 \<le> i \<and> i < int (length b) \<and> 0 \<le> j \<and> j < int (length (b ! nat i)))" for i j
    using len row[of i] by auto
  then show ?thesis by (simp add: pixels_of_def)
qed

text \<open>Assigning \<open>v\<close> at a list of pixels succeeds, keeps the shape, and changes exactly
  the listed pixels.\<close>

lemma setitem2_fancy_pixels:
  "pixels_of a ps \<Longrightarrow>
   \<exists>a'. setitem2_fancy a ps v = Inr a' \<and> same_shape a' a \<and>
     (\<forall>r<length a. \<forall>c<length (a ! r).
        a' ! r ! c = (if (int r, int c) \<in> set ps then v else a ! r ! c))"
proof (induction ps arbitrary: a)
  case Nil
  then show ?case by (simp add: same_shape_def)
next
  case (Cons p ps)
  obtain i j where p: "p = (i, j)" by (cases p)
  from Cons.prems p have ij: "0 \<le> i" "i < int (length a)" "0 \<le> j" "j < int (length (a ! nat i))"
    and rest: "pixels_of a ps"
    by (simp_all add: pixels_of_def)
  let ?b = "a[nat i := (a ! nat i)[nat j := v]]"
  have step: "setitem2 a i j v = Inr ?b" using ij by (rule setitem2_in_range)
  have ri: "nat i < length a" using ij by simp
  have sh: "same_shape ?b a" using ri by (rule same_shape_update)
  have "pixels_of ?b ps" using rest pixels_of_same_shape[OF sh] by simp
  from Cons.IH[OF this] obtain a' where
    run: "setitem2_fancy ?b ps v = Inr a'" and sh': "same_shape a' ?b" and
    px: "\<forall>r<length ?b. \<forall>c<length (?b ! r).
           a' ! r ! c = (if (int r, int c) \<in> set ps then v else ?b ! r ! c)"
    by blast
  have "setitem2_fancy a (p # ps) v = Inr a'" using p step run by simp
  moreover have "same_shape a' a" using sh' sh by (rule same_shape_trans)
  moreover have "\<forall>r<length a. \<forall>c<length (a ! r).
        a' ! r ! c = (if (int r, int c) \<in> set (p # ps) then v else a ! r ! c)"
  proof (intro allI impI)
    fix r c assume r: "r < length a" and c: "c < length (a ! r)"
    have lr: "length (?b ! r) = length (a ! r)" using same_shape_row[OF sh, of r] r by simp
    have e: "a' ! r ! c = (if (int r, int c) \<in> set ps then v else ?b ! r ! c)"
      using px r c lr by simp
    have b: "?b ! r ! c = (if r = nat i \<and> c = nat j then v else a ! r ! c)"
      using r c by (cases "r = nat i") (simp_all add: nth_list_update)
    have k: "(r = nat i \<and> c = nat j) = ((int r, int c) = p)" using ij p by auto
    show "a' ! r ! c = (if (int r, int c) \<in> set (p # ps) then v else a ! r ! c)"
      using e b k by auto
  qed
  ultimately show ?case by blast
qed

lemma ones_like_shape: "same_shape (ones_like a) a"
  by (simp add: same_shape_def ones_like_def comp_def)

lemma ones_like_nth: "r < length a \<Longrightarrow> c < length (a ! r) \<Longrightarrow> ones_like a ! r ! c = 1"
  by (simp add: ones_like_def)

lemma filled_nth:
  assumes "same_shape m d" "r < length d" "c < length (d ! r)"
  shows "filled (ma_array d m) v ! r ! c = (if m ! r ! c \<noteq> 0 then v else d ! r ! c)"
  using assms same_shape_length[OF assms(1)] same_shape_row[OF assms(1), of r]
  by (simp add: filled_def ma_array_def)

lemma filled_shape: "same_shape m d \<Longrightarrow> same_shape (filled (ma_array d m) v) d"
  unfolding same_shape_def filled_def ma_array_def
  by (induction d arbitrary: m) auto

text \<open>The mask after the index assignment is 0 exactly at the listed pixels, so the
  masked array masks exactly the others, and \<open>filled(0)\<close> zeroes exactly them.\<close>

lemma mask_fill_pixels:
  assumes "pixels_of mean_image list_end"
  shows "\<exists>mask. setitem2_fancy (ones_like mean_image) list_end 0 = Inr mask \<and>
           same_shape (filled (ma_array mean_image mask) 0) mean_image \<and>
           (\<forall>r<length mean_image. \<forall>c<length (mean_image ! r).
              filled (ma_array mean_image mask) 0 ! r ! c =
                (if (int r, int c) \<in> set list_end then mean_image ! r ! c else 0))"
proof -
  let ?m = "ones_like mean_image"
  have sh: "same_shape ?m mean_image" by (rule ones_like_shape)
  have "pixels_of ?m list_end" using assms pixels_of_same_shape[OF sh] by simp
  from setitem2_fancy_pixels[OF this, of 0] obtain mask where
    run: "setitem2_fancy ?m list_end 0 = Inr mask" and sh': "same_shape mask ?m" and
    px: "\<forall>r<length ?m. \<forall>c<length (?m ! r).
           mask ! r ! c = (if (int r, int c) \<in> set list_end then 0 else ?m ! r ! c)"
    by blast
  have shm: "same_shape mask mean_image" using sh' sh by (rule same_shape_trans)
  have "\<forall>r<length mean_image. \<forall>c<length (mean_image ! r).
      filled (ma_array mean_image mask) 0 ! r ! c =
        (if (int r, int c) \<in> set list_end then mean_image ! r ! c else 0)"
  proof (intro allI impI)
    fix r c assume r: "r < length mean_image" and c: "c < length (mean_image ! r)"
    have lr: "length (?m ! r) = length (mean_image ! r)" "length ?m = length mean_image"
      using same_shape_row[OF sh, of r] same_shape_length[OF sh] r by simp_all
    have "mask ! r ! c = (if (int r, int c) \<in> set list_end then 0 else 1)"
      using px r c lr by (simp add: ones_like_nth)
    then show "filled (ma_array mean_image mask) 0 ! r ! c =
        (if (int r, int c) \<in> set list_end then mean_image ! r ! c else 0)"
      using filled_nth[OF shm r c, of 0] by simp
  qed
  then show ?thesis using run filled_shape[OF shm] by blast
qed

text \<open>
  Claim C9. In the segmentation cell, for a list of pixel coordinates as
  \<open>region_growing\<close> returns it, the statements from \<open>x = ...\<close> to \<open>filled(0)\<close> do not
  raise; \<open>segmented_image\<close> has the shape of \<open>mean_image\<close>; every pixel whose coordinates
  are in the list equals the pixel of \<open>mean_image\<close>, and every other pixel equals 0.
\<close>

theorem segmented_image_pixels:
  assumes "pixels_of mean_image list_end"
  shows "\<exists>seg. segmented_image_of mean_image list_end = Inr seg \<and>
           map length seg = map length mean_image \<and>
           (\<forall>r<length mean_image. \<forall>c<length (mean_image ! r).
              seg ! r ! c = (if (int r, int c) \<in> set list_end then mean_image ! r ! c else 0))"
proof -
  have z: "zip (map fst list_end) (map snd list_end) = list_end"
    by (simp add: zip_map_fst_snd)
  from mask_fill_pixels[OF assms] obtain mask where
    run: "setitem2_fancy (ones_like mean_image) list_end 0 = Inr mask" and
    sh: "same_shape (filled (ma_array mean_image mask) 0) mean_image" and
    px: "\<forall>r<length mean_image. \<forall>c<length (mean_image ! r).
           filled (ma_array mean_image mask) 0 ! r ! c =
             (if (int r, int c) \<in> set list_end then mean_image ! r ! c else 0)"
    by blast
  have "segmented_image_of mean_image list_end = Inr (filled (ma_array mean_image mask) 0)"
    using run z by (simp add: segmented_image_of_def)
  then show ?thesis using sh px unfolding same_shape_def by blast
qed

theorem segmented_image_pixels_witness:
  "pixels_of [[5, 6, 7], [8, 9, 10 :: int]] [(0, 0), (1, 2), (0, 0)] \<and>
   segmented_image_of [[5, 6, 7], [8, 9, 10 :: int]] [(0, 0), (1, 2), (0, 0)]
     = Inr [[5, 0, 0], [0, 0, 10]]"
proof -
  have h: "pixels_of [[5, 6, 7], [8, 9, 10 :: int]] [(0, 0), (1, 2), (0, 0)]"
    by (simp add: pixels_of_def)
  from segmented_image_pixels[OF h] obtain seg where
    run: "segmented_image_of [[5, 6, 7], [8, 9, 10 :: int]] [(0, 0), (1, 2), (0, 0)] = Inr seg"
    by blast
  have "segmented_image_of [[5, 6, 7], [8, 9, 10 :: int]] [(0, 0), (1, 2), (0, 0)]
     = Inr [[5, 0, 0], [0, 0, 10]]"
    by (simp add: segmented_image_of_def ones_like_def setitem2_def py_index_def
        filled_def ma_array_def)
  then show ?thesis using h run by simp
qed

section \<open>Properties of the segmentation cell\<close>

lemma pixels_of_average_last:
  "pixels_of (average_last avg a) ps = pixels_of a ps"
  by (rule pixels_of_same_shape) (simp add: same_shape_def average_last_def comp_def)

text \<open>
  Claim C3. The cell first selects the spatially coherent ion images with
  \<open>find_similar_images_spatial_coherence\<close> (threshold \<open>factor\<close>, quantiles 60 to 90); the
  region growing runs on the selected images only, from the seeds \<open>(1, 1)\<close> and \<open>(0, 0)\<close>
  with the given lower threshold; and where it returns pixels of the image, the cell
  does not raise and the segmented image is, at every grown pixel, the average of the
  selected images at that pixel, and 0 at every other pixel.
\<close>

theorem segmentation_result:
  assumes sc: "spatially_coherent =
                 find_similar_images_spatial_coherence lib maldi_image factor [60, 70, 80, 90]"
    and rg: "list_end = fst (region_growing lib spatially_coherent {(1, 1), (0, 0)} lower_threshold)"
    and px: "pixels_of spatially_coherent list_end"
  shows "\<exists>seg. segmentation lib maldi_image factor lower_threshold = Inr seg \<and>
           map length seg = map length spatially_coherent \<and>
           (\<forall>r<length spatially_coherent. \<forall>c<length (spatially_coherent ! r).
              seg ! r ! c =
                (if (int r, int c) \<in> set list_end
                 then np_average lib (spatially_coherent ! r ! c) else 0))"
proof -
  let ?mean = "average_last (np_average lib) spatially_coherent"
  have "pixels_of ?mean list_end" using px by (simp add: pixels_of_average_last)
  from mask_fill_pixels[OF this] obtain mask where
    run: "setitem2_fancy (ones_like ?mean) list_end 0 = Inr mask" and
    sh: "same_shape (filled (ma_array ?mean mask) 0) ?mean" and
    fill: "\<forall>r<length ?mean. \<forall>c<length (?mean ! r).
           filled (ma_array ?mean mask) 0 ! r ! c =
             (if (int r, int c) \<in> set list_end then ?mean ! r ! c else 0)"
    by blast
  have z: "zip (map fst list_end) (map snd list_end) = list_end"
    by (simp add: zip_map_fst_snd)
  have cell: "segmentation lib maldi_image factor lower_threshold = segmented_image_of ?mean list_end"
    using sc rg by (simp add: segmentation_def Let_def split_beta)
  have res: "segmentation lib maldi_image factor lower_threshold
               = Inr (filled (ma_array ?mean mask) 0)"
    using cell run z by (simp add: segmented_image_of_def)
  have shape: "map length (filled (ma_array ?mean mask) 0) = map length spatially_coherent"
    using sh by (simp add: same_shape_def average_last_def comp_def)
  have "\<forall>r<length spatially_coherent. \<forall>c<length (spatially_coherent ! r).
      filled (ma_array ?mean mask) 0 ! r ! c =
        (if (int r, int c) \<in> set list_end
         then np_average lib (spatially_coherent ! r ! c) else 0)"
    using fill by (simp add: average_last_def)
  then show ?thesis using res shape by blast
qed

theorem segmentation_result_witness:
  "pixels_of (find_similar_images_spatial_coherence toy_library
       [[[1, 3, 100], [2, 4, 100]], [[5, 7, 100], [6, 10, 100]]] 0 [60, 70, 80, 90])
     (fst (region_growing toy_library
       (find_similar_images_spatial_coherence toy_library
          [[[1, 3, 100], [2, 4, 100]], [[5, 7, 100], [6, 10, 100]]] 0 [60, 70, 80, 90])
       {(1, 1), (0, 0)} 50)) \<and>
   segmentation toy_library [[[1, 3, 100], [2, 4, 100]], [[5, 7, 100], [6, 10, 100]]] 0 50
     = Inr [[2, 0], [0, 8]]"
proof -
  let ?img = "[[[1, 3, 100], [2, 4, 100]], [[5, 7, 100], [6, 10, 100 :: real]]]"
  let ?sc = "find_similar_images_spatial_coherence toy_library ?img 0 [60, 70, 80, 90]"
  let ?le = "fst (region_growing toy_library ?sc {(1, 1), (0, 0)} 50)"
  have h: "pixels_of ?sc ?le" by (simp add: pixels_of_def toy_library_def)
  from segmentation_result[OF refl refl h] obtain seg where
    run: "segmentation toy_library ?img 0 50 = Inr seg" by blast
  have "segmentation toy_library ?img 0 50 = Inr [[2, 0], [0, 8]]"
    by (simp add: segmentation_def toy_library_def average_last_def segmented_image_of_def
        ones_like_def setitem2_def py_index_def filled_def ma_array_def)
  then show ?thesis using h run by simp
qed

section \<open>Properties of the per-slice registration loop\<close>

text \<open>Where the second and third size of the volume agree, the two notebooks allocate
  the same \<open>out_register\<close> and the loops are the same program.\<close>

lemma registered_image_same_when_square:
  "size3 registered_itk = (s0, s, s) \<Longrightarrow>
   quickstart_registered_image execute sp registered_itk =
   advanced_registered_image execute sp registered_itk"
  by (simp add: quickstart_registered_image_def advanced_registered_image_def)

text \<open>
  Claim C10 says that the loop of the quickstart notebook and the loop of the advanced
  example compute the same \<open>registered_image\<close>. They do not on a volume whose second and
  third size differ. Here the volume comes from an array of shape \<open>(2, 1, 1)\<close> (two rows,
  one column, one ion image), so its size is \<open>(1, 1, 2)\<close>, and the registration leaves
  every slice as it is. The advanced example returns the array it started from; the
  quickstart allocates \<open>out_register\<close> with the two in-plane sizes swapped, so the slice
  of size \<open>(1, 2)\<close> is pasted into a plane of size \<open>(2, 1)\<close>: the result has the shape
  \<open>(1, 2, 1)\<close> and the second pixel is lost.
\<close>

theorem registered_image_loops_differ:
  "quickstart_registered_image (\<lambda>slice. slice) (1, 1)
     (GetImageFromArray \<lparr>shape3 = (2, 1, 1), elems = [[[7]], [[9 :: int]]]\<rparr>)
     = Inr \<lparr>shape3 = (1, 2, 1), elems = [[[7], [0]]]\<rparr> \<and>
   advanced_registered_image (\<lambda>slice. slice) (1, 1)
     (GetImageFromArray \<lparr>shape3 = (2, 1, 1), elems = [[[7]], [[9 :: int]]]\<rparr>)
     = Inr \<lparr>shape3 = (2, 1, 1), elems = [[[7]], [[9]]]\<rparr>"
  by (simp add: quickstart_registered_image_def advanced_registered_image_def
      GetImageFromArray_def sitk_Image_def register_slice_def slice_first_def SetSpacing_def
      JoinSeries_def Paste_def in_region_def GetArrayFromImage_def transpose_120_def
      upt_conv_Cons)

section \<open>Properties of the registration cells\<close>

text \<open>The loop hands to \<open>Execute\<close> the slices of the volume only: two \<open>Execute\<close>
  functions that agree on them give the same result.\<close>

lemma register_slices_cong:
  "list_all (\<lambda>i. ex' (SetSpacing (slice_first vol i) sp) = ex (SetSpacing (slice_first vol i) sp)) idx
   \<Longrightarrow> register_slices ex' sp vol idx out = register_slices ex sp vol idx out"
proof (induction idx arbitrary: out)
  case Nil
  then show ?case by simp
next
  case (Cons i idx)
  then have "register_slice ex' sp vol i out = register_slice ex sp vol i out"
    by (simp add: register_slice_def)
  with Cons show ?case by (simp split: sum.splits)
qed

lemma quickstart_registered_image_cong:
  assumes "list_all (\<lambda>i. ex' (SetSpacing (slice_first vol i) sp) = ex (SetSpacing (slice_first vol i) sp))
             [0..<fst (size3 vol)]"
  shows "quickstart_registered_image ex' sp vol = quickstart_registered_image ex sp vol"
  using assms
  by (cases "size3 vol") (simp add: quickstart_registered_image_def register_slices_cong)

lemma advanced_registered_image_cong:
  assumes "list_all (\<lambda>i. ex' (SetSpacing (slice_first vol i) sp) = ex (SetSpacing (slice_first vol i) sp))
             [0..<fst (size3 vol)]"
  shows "advanced_registered_image ex' sp vol = advanced_registered_image ex sp vol"
  using assms
  by (cases "size3 vol") (simp add: advanced_registered_image_def register_slices_cong)

lemma Execute_update_others:
  "optical_itk_of (lib\<lparr>Execute := ex\<rparr>) O_img = optical_itk_of lib O_img"
  "segmented_itk_of (lib\<lparr>Execute := ex\<rparr>) O_img S = segmented_itk_of lib O_img S"
  "registration_of (lib\<lparr>Execute := ex\<rparr>) O_img S = registration_of lib O_img S"
  "registered_itk_of (lib\<lparr>Execute := ex\<rparr>) O_img M = registered_itk_of lib O_img M"
  by (simp_all add: optical_itk_of_def segmented_itk_of_def registration_of_def
      registered_itk_of_def)

lemma register_slices_append:
  "register_slices ex sp vol (xs @ ys) out =
     (case register_slices ex sp vol xs out of
        Inl e \<Rightarrow> Inl e
      | Inr out' \<Rightarrow> register_slices ex sp vol ys out')"
  by (induction xs arbitrary: out) (simp_all split: sum.splits)

lemma map_nth_row: "length row = w \<Longrightarrow> map (\<lambda>x. row ! x) [0..<w] = row"
  using map_nth[of row] by simp

lemma map_nth_plane:
  assumes "wf_plane w h p"
  shows "map (\<lambda>y. map (\<lambda>x. p ! y ! x) [0..<w]) [0..<h] = p"
proof -
  have "map (\<lambda>y. map (\<lambda>x. p ! y ! x) [0..<w]) [0..<h] = map (\<lambda>y. p ! y) [0..<h]"
  proof (rule map_cong[OF refl])
    fix y assume "y \<in> set [0..<h]"
    then have "p ! y \<in> set p" using assms by (simp add: wf_plane_def)
    then have "length (p ! y) = w" using assms by (simp add: wf_plane_def list_all_iff)
    then show "map (\<lambda>x. p ! y ! x) [0..<w] = p ! y" by (rule map_nth_row)
  qed
  also have "\<dots> = p" using assms map_nth[of p] by (simp add: wf_plane_def)
  finally show ?thesis .
qed

lemma wf_plane_zeros: "wf_plane w h (replicate h (replicate w z))"
  by (simp add: wf_plane_def list_all_iff)

text \<open>One pass of the loop body on an image whose planes have the size of the slice.\<close>

lemma register_slice_plane:
  assumes sz: "size3 out = (w, h, n)"
    and vx: "voxels out = map f [0..<n]"
    and wf: "\<forall>z<n. wf_plane w h (f z)"
    and i: "i < n"
    and rs: "size2 (ex (SetSpacing (slice_first vol i) sp)) = (w, h)"
    and rw: "wf_plane w h (pixels (ex (SetSpacing (slice_first vol i) sp)))"
  shows "register_slice ex sp vol i out =
           Inr (out\<lparr>voxels := map (f(i := pixels (ex (SetSpacing (slice_first vol i) sp)))) [0..<n]\<rparr>)"
proof -
  let ?r = "ex (SetSpacing (slice_first vol i) sp)"
  have plane: "map (\<lambda>y. map (\<lambda>x.
                if in_region 0 w x \<and> in_region 0 h y \<and> in_region i 1 z
                then [pixels ?r] ! (z - i) ! (y - 0) ! (x - 0)
                else voxels out ! z ! y ! x) [0..<w]) [0..<h] = (f(i := pixels ?r)) z"
    if z: "z \<in> set [0..<n]" for z
  proof (cases "z = i")
    case True
    have "map (\<lambda>y. map (\<lambda>x.
                if in_region 0 w x \<and> in_region 0 h y \<and> in_region i 1 z
                then [pixels ?r] ! (z - i) ! (y - 0) ! (x - 0)
                else voxels out ! z ! y ! x) [0..<w]) [0..<h]
          = map (\<lambda>y. map (\<lambda>x. pixels ?r ! y ! x) [0..<w]) [0..<h]"
      using True by (intro map_cong refl) (simp add: in_region_def)
    also have "\<dots> = pixels ?r" by (rule map_nth_plane[OF rw])
    also have "\<dots> = (f(i := pixels ?r)) z" using True by simp
    finally show ?thesis .
  next
    case False
    have "map (\<lambda>y. map (\<lambda>x.
                if in_region 0 w x \<and> in_region 0 h y \<and> in_region i 1 z
                then [pixels ?r] ! (z - i) ! (y - 0) ! (x - 0)
                else voxels out ! z ! y ! x) [0..<w]) [0..<h]
          = map (\<lambda>y. map (\<lambda>x. f z ! y ! x) [0..<w]) [0..<h]"
      using False z vx by (intro map_cong refl) (auto simp: in_region_def)
    also have "\<dots> = f z"
    proof (rule map_nth_plane)
      show "wf_plane w h (f z)" using wf z by simp
    qed
    also have "\<dots> = (f(i := pixels ?r)) z" using False by simp
    finally show ?thesis .
  qed
  have "register_slice ex sp vol i out =
          Inr (out\<lparr>voxels := map (\<lambda>z. map (\<lambda>y. map (\<lambda>x.
                if in_region 0 w x \<and> in_region 0 h y \<and> in_region i 1 z
                then [pixels ?r] ! (z - i) ! (y - 0) ! (x - 0)
                else voxels out ! z ! y ! x) [0..<w]) [0..<h]) [0..<n]\<rparr>)"
    using sz rs by (simp add: register_slice_def Paste_def JoinSeries_def Let_def split_beta)
  also have "map (\<lambda>z. map (\<lambda>y. map (\<lambda>x.
                if in_region 0 w x \<and> in_region 0 h y \<and> in_region i 1 z
                then [pixels ?r] ! (z - i) ! (y - 0) ! (x - 0)
                else voxels out ! z ! y ! x) [0..<w]) [0..<h]) [0..<n]
             = map (f(i := pixels ?r)) [0..<n]"
    by (rule map_cong[OF refl]) (rule plane)
  finally show ?thesis .
qed

lemma register_slices_planes:
  assumes rs: "\<forall>i<n. size2 (ex (SetSpacing (slice_first vol i) sp)) = (w, h) \<and>
                      wf_plane w h (pixels (ex (SetSpacing (slice_first vol i) sp)))"
    and k: "k \<le> n"
  shows "register_slices ex sp vol [0..<k] (sitk_Image (w, h, n)) =
           Inr ((sitk_Image (w, h, n))\<lparr>voxels :=
                  map (\<lambda>z. if z < k then pixels (ex (SetSpacing (slice_first vol z) sp))
                            else replicate h (replicate w 0)) [0..<n]\<rparr>)"
  using k
proof (induction k)
  case 0
  have "voxels (sitk_Image (w, h, n) :: 'a image3) = map (\<lambda>z. replicate h (replicate w 0)) [0..<n]"
    by (simp add: sitk_Image_def map_replicate_const)
  then show ?case by simp
next
  case (Suc k)
  let ?f = "\<lambda>z. if z < k then pixels (ex (SetSpacing (slice_first vol z) sp))
                 else replicate h (replicate w (0 :: 'a))"
  let ?out = "(sitk_Image (w, h, n))\<lparr>voxels := map ?f [0..<n]\<rparr>"
  from Suc have run: "register_slices ex sp vol [0..<k] (sitk_Image (w, h, n)) = Inr ?out"
    and kn: "k < n" by simp_all
  have wf: "\<forall>z<n. wf_plane w h (?f z)" using rs by (simp add: wf_plane_zeros)
  have step: "register_slice ex sp vol k ?out =
     Inr (?out\<lparr>voxels := map (?f(k := pixels (ex (SetSpacing (slice_first vol k) sp)))) [0..<n]\<rparr>)"
  proof (rule register_slice_plane[OF _ _ wf kn])
    show "size3 ?out = (w, h, n)" by (simp add: sitk_Image_def)
    show "voxels ?out = map ?f [0..<n]" by simp
    show "size2 (ex (SetSpacing (slice_first vol k) sp)) = (w, h)" using rs kn by simp
    show "wf_plane w h (pixels (ex (SetSpacing (slice_first vol k) sp)))" using rs kn by simp
  qed
  have upd: "?f(k := pixels (ex (SetSpacing (slice_first vol k) sp))) =
     (\<lambda>z. if z < Suc k then pixels (ex (SetSpacing (slice_first vol z) sp))
           else replicate h (replicate w 0))"
    by (auto simp: fun_eq_iff less_Suc_eq)
  have "register_slices ex sp vol [0..<Suc k] (sitk_Image (w, h, n)) =
          register_slices ex sp vol [k] ?out"
    using run by (simp add: register_slices_append)
  also have "\<dots> = Inr (?out\<lparr>voxels :=
       map (?f(k := pixels (ex (SetSpacing (slice_first vol k) sp)))) [0..<n]\<rparr>)"
    using step by simp
  finally show ?case unfolding upd by simp
qed

text \<open>The loop of the advanced example, where \<open>Execute\<close> returns images of the in-plane
  size of the volume: ion image \<open>k\<close> of the result is \<open>Execute\<close> of slice \<open>k\<close>.\<close>

lemma advanced_registered_image_slices:
  assumes sz: "size3 vol = (n, w, h)"
    and rs: "\<forall>i<n. size2 (ex (SetSpacing (slice_first vol i) sp)) = (w, h) \<and>
                      wf_plane w h (pixels (ex (SetSpacing (slice_first vol i) sp)))"
  shows "advanced_registered_image ex sp vol =
           Inr \<lparr>shape3 = (h, w, n),
                elems = map (\<lambda>i. map (\<lambda>j. map (\<lambda>k.
                  pixels (ex (SetSpacing (slice_first vol k) sp)) ! i ! j) [0..<n]) [0..<w]) [0..<h]\<rparr>"
proof -
  have run: "register_slices ex sp vol [0..<n] (sitk_Image (w, h, n)) =
           Inr ((sitk_Image (w, h, n))\<lparr>voxels :=
                  map (\<lambda>z. if z < n then pixels (ex (SetSpacing (slice_first vol z) sp))
                            else replicate h (replicate w 0)) [0..<n]\<rparr>)"
    by (rule register_slices_planes[OF rs]) simp
  have inner: "map (\<lambda>k. map (\<lambda>z. if z < n then pixels (ex (SetSpacing (slice_first vol z) sp))
                            else replicate h (replicate w 0)) [0..<n] ! k ! i ! j) [0..<n]
        = map (\<lambda>k. pixels (ex (SetSpacing (slice_first vol k) sp)) ! i ! j) [0..<n]" for i j
    by (rule map_cong[OF refl]) simp
  show ?thesis
    using sz run by (simp add: advanced_registered_image_def GetArrayFromImage_def
        transpose_120_def sitk_Image_def inner)
qed

lemma resample_size: "size2 (resample img (w, h) sp t) = (w, h)"
  by (simp add: resample_def split_beta)

lemma resample_wf: "wf_plane w h (pixels (resample img (w, h) sp t))"
  by (simp add: resample_def split_beta wf_plane_def list_all_iff)

lemma resample_pixel:
  "i < h \<Longrightarrow> j < w \<Longrightarrow>
   pixels (resample img (w, h) (sx, sy) t) ! i ! j = nearest_pixel img (t (real j * sx, real i * sy))"
  by (simp add: resample_def)

text \<open>
  Claim C6. With the registration object as the notebooks describe it, the two
  registration cells compute the following, in both notebooks.
  The registration object is fitted with the optical image as the fixed image and the
  resized segmented MALDI image as the moving image: it holds the size and the spacing
  of the optical image, and the transform that the optimizer estimates from the optical
  image, first, and the segmented image, second, with 8 bins, a sampling percentage of
  0.1, seed 0, learning rate 0.8, relaxation factor 0.8 and minimal step 0.0001.
  What is shown as the registered segmented image is the segmented MALDI image resampled
  into the grid of the optical image: it has the rows and columns of the optical image,
  and its pixel in row \<open>i\<close> and column \<open>j\<close> is the nearest pixel of the segmented image at the
  transformed point of pixel \<open>(j, i)\<close> of the optical image.
  When the resized MALDI volume has the in-plane size of the optical image, the loop
  of the advanced example does not fail, and ion image \<open>k\<close> of \<open>registered_image\<close> is slice
  \<open>k\<close> of the volume resampled in the same way; the quickstart gives the same array when
  the optical image is square.
  The optical image is never transformed: \<open>Execute\<close> is applied to MALDI images only, so
  replacing it by any function that agrees with it on the segmented image and on the
  slices of the volume changes no result of the two cells.
\<close>

theorem registration_fixed_and_moving:
  fixes lib :: "('a::zero, registration_method) registration_library"
  assumes reg: "register lib = register_fit optimizer"
    and exe: "Execute lib = Execute_resample"
    and osz: "size2 (optical_itk_of lib optical_image) = (w, h)"
    and osp: "spacing2 (optical_itk_of lib optical_image) = (sx, sy)"
    and vsz: "size3 (registered_itk_of lib optical_image maldi_image) = (n, w, h)"
    and fit: "t = optimizer (optical_itk_of lib optical_image)
                    (segmented_itk_of lib optical_image segmented_image) 8 0.1 0 0.8 0.8 0.0001"
    and agree:
      "list_all (\<lambda>img. ex (registration_of lib optical_image segmented_image) img =
                        Execute lib (registration_of lib optical_image segmented_image) img)
         (maldi_inputs lib optical_image segmented_image maldi_image)"
  shows "registration_of lib optical_image segmented_image =
           \<lparr>reference_size = (w, h), reference_spacing = (sx, sy), fitted_transform = t\<rparr> \<and>
         registered_seg_image_of lib optical_image segmented_image =
           map (\<lambda>i. map (\<lambda>j.
             nearest_pixel (segmented_itk_of lib optical_image segmented_image)
               (t (real j * sx, real i * sy))) [0..<w]) [0..<h] \<and>
         snd (advanced_registration lib optical_image segmented_image maldi_image) =
           Inr \<lparr>shape3 = (h, w, n),
                elems = map (\<lambda>i. map (\<lambda>j. map (\<lambda>k.
                  nearest_pixel
                    (SetSpacing (slice_first (registered_itk_of lib optical_image maldi_image) k) (sx, sy))
                    (t (real j * sx, real i * sy))) [0..<n]) [0..<w]) [0..<h]\<rparr> \<and>
         (w = h \<longrightarrow>
            snd (quickstart_registration lib optical_image segmented_image maldi_image) =
            snd (advanced_registration lib optical_image segmented_image maldi_image)) \<and>
         quickstart_registration (lib\<lparr>Execute := ex\<rparr>) optical_image segmented_image maldi_image =
           quickstart_registration lib optical_image segmented_image maldi_image \<and>
         advanced_registration (lib\<lparr>Execute := ex\<rparr>) optical_image segmented_image maldi_image =
           advanced_registration lib optical_image segmented_image maldi_image"
proof -
  let ?g = "registration_of lib optical_image segmented_image"
  let ?S = "segmented_itk_of lib optical_image segmented_image"
  let ?V = "registered_itk_of lib optical_image maldi_image"
  let ?sp = "spacing2 (optical_itk_of lib optical_image)"
  have g: "?g = \<lparr>reference_size = (w, h), reference_spacing = (sx, sy), fitted_transform = t\<rparr>"
    using reg osz osp fit by (simp add: registration_of_def register_fit_def)
  have ex_eq: "Execute lib ?g img = resample img (w, h) (sx, sy) t" for img
    using exe g by (simp add: Execute_resample_def)
  have seg: "registered_seg_image_of lib optical_image segmented_image =
           map (\<lambda>i. map (\<lambda>j. nearest_pixel ?S (t (real j * sx, real i * sy))) [0..<w]) [0..<h]"
    by (simp add: registered_seg_image_of_def GetArrayFromImage2_def ex_eq resample_def)
  have rs: "\<forall>i<n. size2 (Execute lib ?g (SetSpacing (slice_first ?V i) ?sp)) = (w, h) \<and>
                   wf_plane w h (pixels (Execute lib ?g (SetSpacing (slice_first ?V i) ?sp)))"
    by (simp add: ex_eq resample_size resample_wf)
  have px: "map (\<lambda>i. map (\<lambda>j. map (\<lambda>k.
              pixels (Execute lib ?g (SetSpacing (slice_first ?V k) ?sp)) ! i ! j) [0..<n]) [0..<w]) [0..<h]
          = map (\<lambda>i. map (\<lambda>j. map (\<lambda>k.
              nearest_pixel (SetSpacing (slice_first ?V k) (sx, sy)) (t (real j * sx, real i * sy)))
              [0..<n]) [0..<w]) [0..<h]"
    by (intro map_cong refl) (simp add: ex_eq osp resample_pixel)
  have adv: "snd (advanced_registration lib optical_image segmented_image maldi_image) =
           Inr \<lparr>shape3 = (h, w, n),
                elems = map (\<lambda>i. map (\<lambda>j. map (\<lambda>k.
                  nearest_pixel (SetSpacing (slice_first ?V k) (sx, sy))
                    (t (real j * sx, real i * sy))) [0..<n]) [0..<w]) [0..<h]\<rparr>"
    using advanced_registered_image_slices[OF vsz rs] px
    by (simp add: advanced_registration_def)
  have sq: "w = h \<longrightarrow>
            snd (quickstart_registration lib optical_image segmented_image maldi_image) =
            snd (advanced_registration lib optical_image segmented_image maldi_image)"
    using vsz registered_image_same_when_square[of ?V n w "Execute lib ?g" ?sp]
    by (simp add: quickstart_registration_def advanced_registration_def)
  from agree have sg: "ex ?g ?S = Execute lib ?g ?S"
    and slices: "list_all (\<lambda>i. ex ?g (SetSpacing (slice_first ?V i) ?sp) =
                      Execute lib ?g (SetSpacing (slice_first ?V i) ?sp)) [0..<fst (size3 ?V)]"
    by (simp_all add: maldi_inputs_def Let_def list_all_iff)
  have b': "registered_seg_image_of (lib\<lparr>Execute := ex\<rparr>) optical_image segmented_image
              = registered_seg_image_of lib optical_image segmented_image"
    using sg by (simp add: registered_seg_image_of_def Execute_update_others)
  have c: "quickstart_registered_image (ex ?g) ?sp ?V
             = quickstart_registered_image (Execute lib ?g) ?sp ?V"
    using slices by (rule quickstart_registered_image_cong)
  have d: "advanced_registered_image (ex ?g) ?sp ?V
             = advanced_registered_image (Execute lib ?g) ?sp ?V"
    using slices by (rule advanced_registered_image_cong)
  have q: "quickstart_registration (lib\<lparr>Execute := ex\<rparr>) optical_image segmented_image maldi_image =
           quickstart_registration lib optical_image segmented_image maldi_image"
    using b' c by (simp add: quickstart_registration_def Execute_update_others)
  have r: "advanced_registration (lib\<lparr>Execute := ex\<rparr>) optical_image segmented_image maldi_image =
           advanced_registration lib optical_image segmented_image maldi_image"
    using b' d by (simp add: advanced_registration_def Execute_update_others)
  show ?thesis using g seg adv sq q r by blast
qed

theorem registration_fixed_and_moving_witness:
  "register shift_registration = register_fit shift_optimizer \<and>
   Execute shift_registration = Execute_resample \<and>
   size2 (optical_itk_of shift_registration [[1, 2], [3, 4]]) = (2, 2) \<and>
   spacing2 (optical_itk_of shift_registration [[1, 2], [3, 4]]) = (1, 1) \<and>
   size3 (registered_itk_of shift_registration [[1, 2], [3, 4]]
            \<lparr>shape3 = (2, 2, 2), elems = [[[5, 1], [6, 2]], [[7, 3], [8, 9]]]\<rparr>) = (2, 2, 2) \<and>
   list_all (\<lambda>img. blank_optical (registration_of shift_registration [[1, 2], [3, 4]] [[0, 5], [6, 0]]) img =
                    Execute shift_registration
                      (registration_of shift_registration [[1, 2], [3, 4]] [[0, 5], [6, 0]]) img)
     (maldi_inputs shift_registration [[1, 2], [3, 4]] [[0, 5], [6, 0]]
        \<lparr>shape3 = (2, 2, 2), elems = [[[5, 1], [6, 2]], [[7, 3], [8, 9]]]\<rparr>) \<and>
   blank_optical (registration_of shift_registration [[1, 2], [3, 4]] [[0, 5], [6, 0]])
       (optical_itk_of shift_registration [[1, 2], [3, 4]]) \<noteq>
     Execute shift_registration (registration_of shift_registration [[1, 2], [3, 4]] [[0, 5], [6, 0]])
       (optical_itk_of shift_registration [[1, 2], [3, 4]]) \<and>
   reference_size (registration_of shift_registration [[1, 2], [3, 4]] [[0, 5], [6, 0]]) = (2, 2) \<and>
   fitted_transform (registration_of shift_registration [[1, 2], [3, 4]] [[0, 5], [6, 0]]) (0, 0) = (1, 0) \<and>
   registered_seg_image_of shift_registration [[1, 2], [3, 4]] [[0, 5], [6, 0]] = [[5, 0], [0, 0]] \<and>
   snd (advanced_registration shift_registration [[1, 2], [3, 4]] [[0, 5], [6, 0]]
          \<lparr>shape3 = (2, 2, 2), elems = [[[5, 1], [6, 2]], [[7, 3], [8, 9]]]\<rparr>) =
     Inr \<lparr>shape3 = (2, 2, 2), elems = [[[6, 2], [0, 0]], [[8, 9], [0, 0]]]\<rparr> \<and>
   snd (quickstart_registration shift_registration [[1, 2], [3, 4]] [[0, 5], [6, 0]]
          \<lparr>shape3 = (2, 2, 2), elems = [[[5, 1], [6, 2]], [[7, 3], [8, 9]]]\<rparr>) =
     Inr \<lparr>shape3 = (2, 2, 2), elems = [[[6, 2], [0, 0]], [[8, 9], [0, 0]]]\<rparr> \<and>
   quickstart_registration (shift_registration\<lparr>Execute := blank_optical\<rparr>)
       [[1, 2], [3, 4]] [[0, 5], [6, 0]] \<lparr>shape3 = (2, 2, 2), elems = [[[5, 1], [6, 2]], [[7, 3], [8, 9]]]\<rparr> =
     ([[5, 0], [0, 0]], Inr \<lparr>shape3 = (2, 2, 2), elems = [[[6, 2], [0, 0]], [[8, 9], [0, 0]]]\<rparr>)"
proof -
  let ?O = "[[1, 2], [3, 4]] :: int list list"
  let ?S = "[[0, 5], [6, 0]] :: int list list"
  let ?M = "\<lparr>shape3 = (2, 2, 2), elems = [[[5, 1], [6, 2]], [[7, 3], [8, 9]]]\<rparr> :: int ndarray3"
  have h1: "register shift_registration = register_fit shift_optimizer"
    and h2: "Execute shift_registration = Execute_resample"
    by (simp_all add: shift_registration_def)
  have itk: "optical_itk_of shift_registration ?O = GetImageFromArray2 ?O"
    "segmented_itk_of shift_registration ?O ?S = GetImageFromArray2 ?S"
    by (simp_all add: optical_itk_of_def segmented_itk_of_def shift_registration_def)
  have h3: "size2 (optical_itk_of shift_registration ?O) = (2, 2)"
    and h4: "spacing2 (optical_itk_of shift_registration ?O) = (1, 1)"
    by (simp_all add: itk GetImageFromArray2_def)
  have vol: "registered_itk_of shift_registration ?O ?M = GetImageFromArray ?M"
    by (simp add: registered_itk_of_def shift_registration_def)
  have h5: "size3 (registered_itk_of shift_registration ?O ?M) = (2, 2, 2)"
    by (simp add: vol GetImageFromArray_def)
  have g: "registration_of shift_registration ?O ?S =
             \<lparr>reference_size = (2, 2), reference_spacing = (1, 1),
              fitted_transform = shift_optimizer (GetImageFromArray2 ?O) (GetImageFromArray2 ?S)
                                   8 0.1 0 0.8 0.8 0.0001\<rparr>"
    by (simp add: registration_of_def itk h1 register_fit_def GetImageFromArray2_def)
  have inputs: "maldi_inputs shift_registration ?O ?S ?M =
                  [GetImageFromArray2 ?S, GetImageFromArray2 [[5, 6], [7, 8]],
                   GetImageFromArray2 [[1, 2], [3, 9]]]"
    by (simp add: maldi_inputs_def Let_def itk vol h4 GetImageFromArray_def GetImageFromArray2_def
        SetSpacing_def slice_first_def upt_conv_Cons)
  have h6: "list_all (\<lambda>img. blank_optical (registration_of shift_registration ?O ?S) img =
                    Execute shift_registration (registration_of shift_registration ?O ?S) img)
              (maldi_inputs shift_registration ?O ?S ?M)"
    by (simp add: inputs h2 blank_optical_def GetImageFromArray2_def)
  have differs: "blank_optical (registration_of shift_registration ?O ?S)
                   (optical_itk_of shift_registration ?O) \<noteq>
                 Execute shift_registration (registration_of shift_registration ?O ?S)
                   (optical_itk_of shift_registration ?O)"
    by (simp add: itk h2 g blank_optical_def Execute_resample_def resample_def nearest_pixel_def
        shift_optimizer_def GetImageFromArray2_def upt_conv_Cons)
  have fit: "shift_optimizer (optical_itk_of shift_registration ?O)
               (segmented_itk_of shift_registration ?O ?S) 8 0.1 0 0.8 0.8 0.0001 =
             (\<lambda>p. (fst p + 1, snd p))"
    by (rule ext) (simp add: shift_optimizer_def)
  have near: "nearest_pixel (GetImageFromArray2 ?S) (1, 0) = 5"
    "nearest_pixel (GetImageFromArray2 ?S) (2, 0) = 0"
    "nearest_pixel (GetImageFromArray2 ?S) (1, 1) = 0"
    "nearest_pixel (GetImageFromArray2 ?S) (2, 1) = 0"
    by (simp_all add: nearest_pixel_def GetImageFromArray2_def)
  have slice0: "SetSpacing (slice_first (GetImageFromArray ?M) 0) (1, 1) =
                  GetImageFromArray2 [[5, 6], [7, 8]]"
    "SetSpacing (slice_first (GetImageFromArray ?M) (Suc 0)) (1, 1) =
                  GetImageFromArray2 [[1, 2], [3, 9]]"
    by (simp_all add: GetImageFromArray_def GetImageFromArray2_def SetSpacing_def slice_first_def)
  have near0: "nearest_pixel (GetImageFromArray2 [[5, 6], [7, 8]]) (1, 0) = (6::int)"
    "nearest_pixel (GetImageFromArray2 [[5, 6], [7, 8]]) (2, 0) = (0::int)"
    "nearest_pixel (GetImageFromArray2 [[5, 6], [7, 8]]) (1, 1) = (8::int)"
    "nearest_pixel (GetImageFromArray2 [[5, 6], [7, 8]]) (2, 1) = (0::int)"
    "nearest_pixel (GetImageFromArray2 [[1, 2], [3, 9]]) (1, 0) = (2::int)"
    "nearest_pixel (GetImageFromArray2 [[1, 2], [3, 9]]) (2, 0) = (0::int)"
    "nearest_pixel (GetImageFromArray2 [[1, 2], [3, 9]]) (1, 1) = (9::int)"
    "nearest_pixel (GetImageFromArray2 [[1, 2], [3, 9]]) (2, 1) = (0::int)"
    by (simp_all add: nearest_pixel_def GetImageFromArray2_def)
  note inst = registration_fixed_and_moving[where lib = shift_registration
      and optimizer = shift_optimizer and ex = blank_optical
      and optical_image = ?O and segmented_image = ?S and maldi_image = ?M,
      OF h1 h2 h3 h4 h5 fit[symmetric] h6]
  have seg: "registered_seg_image_of shift_registration ?O ?S = [[5, 0], [0, 0]]"
    using inst by (simp add: itk near upt_conv_Cons)
  have adv: "snd (advanced_registration shift_registration ?O ?S ?M) =
               Inr \<lparr>shape3 = (2, 2, 2), elems = [[[6, 2], [0, 0]], [[8, 9], [0, 0]]]\<rparr>"
    using inst by (simp add: vol slice0 near0 upt_conv_Cons)
  have quick: "snd (quickstart_registration shift_registration ?O ?S ?M) =
               Inr \<lparr>shape3 = (2, 2, 2), elems = [[[6, 2], [0, 0]], [[8, 9], [0, 0]]]\<rparr>"
    using inst adv by simp
  have fst_q: "fst (quickstart_registration shift_registration ?O ?S ?M) = [[5, 0], [0, 0]]"
    using seg by (simp add: quickstart_registration_def)
  have blank: "quickstart_registration (shift_registration\<lparr>Execute := blank_optical\<rparr>) ?O ?S ?M =
                 ([[5, 0], [0, 0]], Inr \<lparr>shape3 = (2, 2, 2), elems = [[[6, 2], [0, 0]], [[8, 9], [0, 0]]]\<rparr>)"
    using inst quick fst_q by (simp add: prod_eq_iff)
  have rsz: "reference_size (registration_of shift_registration ?O ?S) = (2, 2)"
    and ft: "fitted_transform (registration_of shift_registration ?O ?S) (0, 0) = (1, 0)"
    using inst by simp_all
  show ?thesis
    using h1 h2 h3 h4 h5 h6 differs rsz ft seg adv quick blank by blast
qed


section \<open>Properties of the stage order and the data flow\<close>

text \<open>
  Claim C1, as the notebook has it. The five stages run in the order Loader, Peak
  Detector/Aligner, Segmenter, Registrar, Fusion/Ranking, each once. Every variable a
  statement reads was bound before, by the same or an earlier stage. Ten flows cross
  from one stage to another: every stage after the Loader reads what the stage just
  before it bound, and three flows skip stages: the Registrar reads the Loader's
  \<open>optical_image\<close>, and Fusion reads the Loader's \<open>optical_image\<close> and the Aligner's \<open>mzs\<close>.
\<close>

theorem quickstart_dataflow:
  "stage_order quickstart = [Loader, PeakAligner, Segmenter, Registrar, Fusion] \<and>
   list_all from_earlier (flows quickstart) \<and>
   cross_flows quickstart =
     [(PeakAligner, ''mz_first'', Some Loader),
      (PeakAligner, ''intensities_first'', Some Loader),
      (PeakAligner, ''spectra'', Some Loader),
      (Segmenter, ''realigned_spectra'', Some PeakAligner),
      (Registrar, ''optical_image'', Some Loader),
      (Registrar, ''segmented_image'', Some Segmenter),
      (Registrar, ''maldi_image'', Some Segmenter),
      (Fusion, ''registered_image'', Some Registrar),
      (Fusion, ''mzs'', Some PeakAligner),
      (Fusion, ''optical_image'', Some Loader)]"
  by code_simp

text \<open>Claim C1 as stated fails: the Fusion stage reads \<open>optical_image\<close>, which the Loader
  bound, three stages before.\<close>

theorem quickstart_not_only_previous:
  "(Fusion, ''optical_image'', Some Loader) \<in> set (flows quickstart) \<and>
   \<not> from_previous (Fusion, ''optical_image'', Some Loader)"
  by code_simp

section \<open>Properties of the fusion cell\<close>

lemma argsort_length [simp]: "length (argsort ds) = length ds"
  by (simp add: argsort_def)

lemma map_fst_zip_upt: "map fst (zip [0..<length ds] ds) = [0..<length ds]"
  by (rule map_fst_zip) simp

lemma argsort_set: "set (argsort ds) = {..<length ds}"
proof -
  have "set (argsort ds) = fst ` set (zip [0..<length ds] ds)"
    by (simp add: argsort_def)
  also have "\<dots> = set (map fst (zip [0..<length ds] ds))"
    by (simp only: set_map)
  also have "\<dots> = set [0..<length ds]"
    by (simp only: map_fst_zip_upt)
  also have "\<dots> = {..<length ds}"
    by (simp add: atLeast0LessThan)
  finally show ?thesis .
qed

lemma argsort_distinct: "distinct (argsort ds)"
proof -
  have "distinct (map fst (zip [0..<length ds] ds))"
    unfolding map_fst_zip_upt by simp
  then have d: "distinct (zip [0..<length ds] ds)" and i: "inj_on fst (set (zip [0..<length ds] ds))"
    unfolding distinct_map by simp_all
  show ?thesis unfolding argsort_def by (simp add: distinct_map d i)
qed

lemma zip_upt_snd: "p \<in> set (zip [0..<length ds] ds) \<Longrightarrow> snd p = ds ! fst p"
  by (auto simp: set_zip)

lemma argsort_sorted: "sorted (map (\<lambda>i. ds ! i) (argsort ds))"
proof -
  let ?zs = "sort_key snd (zip [0..<length ds] ds)"
  have "map (\<lambda>i. ds ! i) (argsort ds) = map (\<lambda>p. ds ! fst p) ?zs"
    by (simp add: argsort_def comp_def)
  also have "\<dots> = map snd ?zs"
    by (rule map_cong) (auto simp: zip_upt_snd)
  finally show ?thesis by simp
qed

lemma ion_image_take_ions:
  "k < length idx \<Longrightarrow> ion_image (take_ions a idx) k = ion_image a (idx ! k)"
  by (cases "shape3 a") (simp add: ion_image_def take_ions_def comp_def)

lemma rank_images_sorted:
  assumes red: "reduction = transform lib fit_red maldi_flatten"
    and pt: "point_optical = transform lib fit_red optical_flatten"
    and lm: "length reduction \<le> length mzs"
    and li: "length reduction \<le> snd (snd (shape3 registered_image))"
  shows "\<exists>similar_images similar_mzs distances.
           rank_images lib fit_red maldi_flatten optical_flatten registered_image mzs
             = Inr (similar_images, similar_mzs, distances) \<and>
           sorted distances \<and> length distances = length reduction \<and>
           length similar_mzs = length reduction \<and>
           (\<exists>idx. distinct idx \<and> set idx = {..<length reduction} \<and>
              (\<forall>k<length reduction.
                 distances ! k =
                   distance lib (replicate (shape1 reduction) 1) (reduction ! (idx ! k)) point_optical \<and>
                 similar_mzs ! k = mzs ! (idx ! k) \<and>
                 ion_image similar_images k = ion_image registered_image (idx ! k)))"
proof -
  let ?w = "replicate (shape1 reduction) (1 :: int)"
  let ?ds = "map (\<lambda>row. distance lib ?w row point_optical) reduction"
  let ?idx = "argsort ?ds"
  let ?si = "take_ions registered_image ?idx"
  let ?sm = "map (\<lambda>i. mzs ! i) ?idx"
  let ?di = "map (\<lambda>i. ?ds ! i) ?idx"
  have w: "map (\<lambda>i. 1 :: int) [0..<shape1 reduction] = ?w"
    by (simp add: map_replicate_const)
  have st: "set ?idx = {..<length reduction}" using argsort_set[of ?ds] by simp
  have inr: "list_all (\<lambda>i. i < length mzs \<and> i < snd (snd (shape3 registered_image))) ?idx"
    unfolding list_all_iff st using lm li by auto
  have sel: "rank_images lib fit_red maldi_flatten optical_flatten registered_image mzs
      = Inr (?si, ?sm, ?di)"
    using red pt w inr by (simp add: rank_images_def select_images_def Let_def)
  have len: "length ?idx = length reduction" by simp
  have s: "sorted ?di" by (rule argsort_sorted)
  have d: "distinct ?idx" by (rule argsort_distinct)
  have each: "\<forall>k<length reduction.
               ?di ! k = distance lib ?w (reduction ! (?idx ! k)) point_optical \<and>
               ?sm ! k = mzs ! (?idx ! k) \<and>
               ion_image ?si k = ion_image registered_image (?idx ! k)"
  proof (intro allI impI)
    fix k assume k: "k < length reduction"
    then have "?idx ! k \<in> set ?idx" using len by (metis nth_mem)
    then have r: "?idx ! k < length reduction" using st by simp
    show "?di ! k = distance lib ?w (reduction ! (?idx ! k)) point_optical \<and>
               ?sm ! k = mzs ! (?idx ! k) \<and>
               ion_image ?si k = ion_image registered_image (?idx ! k)"
      using k r len by (simp add: ion_image_take_ions)
  qed
  have l1: "length ?di = length reduction" by simp
  have l2: "length ?sm = length reduction" by simp
  show ?thesis using sel s l1 l2 d st each by blast
qed

text \<open>
  Claim C7. In both notebooks the registered MALDI data is flattened and factorized in
  5 components (PCA in the quickstart, NMF in the advanced example), and the fitted
  model projects both the flattened MALDI data and the flattened reference image.
  Where there is an m/z value and an ion image for every row of the reduction,
  \<open>select_images\<close> returns; it returns as many distances and m/z values as there are
  rows; the distances are in ascending order; and the three results list the ion
  images in one and the same order: position \<open>k\<close> of each holds the ion image \<open>idx ! k\<close>,
  its m/z value, and the weighted distance (all weights 1) between its reduced
  representation and the projected reference image, where \<open>idx\<close> lists every ion once.
\<close>

theorem fusion_ranking:
  assumes cell:
      "cell = quickstart_fusion lib optical_image registered_image mzs \<and>
         fit_red = pca lib (flatten_spectral lib registered_image) 5 \<and>
         optical_flatten = flatten lib optical_image
       \<or> cell = advanced_fusion lib optical_image registered_image mzs \<and>
         fit_red = nmf lib (flatten_spectral lib registered_image) 5 \<and>
         optical_flatten = astype_float32 lib (flatten lib optical_image)"
    and red: "reduction = transform lib fit_red (flatten_spectral lib registered_image)"
    and pt: "point_optical = transform lib fit_red optical_flatten"
    and lm: "length reduction \<le> length mzs"
    and li: "length reduction \<le> snd (snd (shape3 registered_image))"
  shows "\<exists>similar_images similar_mzs distances.
           cell = Inr (similar_images, similar_mzs, distances) \<and>
           sorted distances \<and> length distances = length reduction \<and>
           length similar_mzs = length reduction \<and>
           (\<exists>idx. distinct idx \<and> set idx = {..<length reduction} \<and>
              (\<forall>k<length reduction.
                 distances ! k =
                   distance lib (replicate (shape1 reduction) 1) (reduction ! (idx ! k)) point_optical \<and>
                 similar_mzs ! k = mzs ! (idx ! k) \<and>
                 ion_image similar_images k = ion_image registered_image (idx ! k)))"
proof -
  have "cell = rank_images lib fit_red (flatten_spectral lib registered_image) optical_flatten
          registered_image mzs"
    using cell by (auto simp: quickstart_fusion_def advanced_fusion_def Let_def)
  with rank_images_sorted[OF red pt lm li] show ?thesis by simp
qed

theorem fusion_ranking_witness:
  "length (transform toy_fusion () (flatten_spectral toy_fusion
       \<lparr>shape3 = (1, 2, 3), elems = [[[1, 5, 3], [1, 5, 2]]]\<rparr>)) \<le> length [100, 200, 300 :: nat] \<and>
   quickstart_fusion toy_fusion [[4, 2]] \<lparr>shape3 = (1, 2, 3), elems = [[[1, 5, 3], [1, 5, 2]]]\<rparr>
     [100, 200, 300 :: nat]
   = Inr (\<lparr>shape3 = (1, 2, 3), elems = [[[3, 1, 5], [2, 1, 5]]]\<rparr>, [300, 100, 200], [1, 4, 4])"
proof -
  let ?img = "\<lparr>shape3 = (1, 2, 3), elems = [[[1, 5, 3], [1, 5, 2 :: int]]]\<rparr>"
  let ?red = "transform toy_fusion () (flatten_spectral toy_fusion ?img)"
  have lm: "length ?red \<le> length [100, 200, 300 :: nat]"
    by (simp add: toy_fusion_def)
  have li: "length ?red \<le> snd (snd (shape3 ?img))"
    by (simp add: toy_fusion_def)
  have c: "quickstart_fusion toy_fusion [[4, 2]] ?img [100, 200, 300 :: nat] =
             quickstart_fusion toy_fusion [[4, 2]] ?img [100, 200, 300 :: nat] \<and>
           () = pca toy_fusion (flatten_spectral toy_fusion ?img) 5 \<and>
           flatten toy_fusion [[4, 2]] = flatten toy_fusion [[4, 2]]
         \<or> quickstart_fusion toy_fusion [[4, 2]] ?img [100, 200, 300 :: nat] =
             advanced_fusion toy_fusion [[4, 2]] ?img [100, 200, 300 :: nat] \<and>
           () = nmf toy_fusion (flatten_spectral toy_fusion ?img) 5 \<and>
           flatten toy_fusion [[4, 2]] = astype_float32 toy_fusion (flatten toy_fusion [[4, 2]])"
    by simp
  from fusion_ranking[OF c refl refl lm li] obtain si sm di where
    run: "quickstart_fusion toy_fusion [[4, 2]] ?img [100, 200, 300 :: nat] = Inr (si, sm, di)"
    by blast
  have "quickstart_fusion toy_fusion [[4, 2]] ?img [100, 200, 300 :: nat]
   = Inr (\<lparr>shape3 = (1, 2, 3), elems = [[[3, 1, 5], [2, 1, 5]]]\<rparr>, [300, 100, 200], [1, 4, 4])"
    by (simp add: quickstart_fusion_def rank_images_def select_images_def toy_fusion_def
        argsort_def take_ions_def ion_image_def shape1_def upt_conv_Cons)
  then show ?thesis using lm run by simp
qed

end
